theory Spec2Isabelle
  imports Main
begin

section \<open>Data model\<close>

text \<open>
  The cluster package of minikube, embedded shallowly. Every call that leaves the package
  (the libmachine API, the driver, the SSH transfer primitives, the Kubernetes client, the
  template engine and the URL parser) is a field of an environment record; the package's
  own control flow is written out as the source has it. Logging through \<open>glog.Infoln\<close>
  and the pause before \<open>createHost\<close> reports a failed \<open>Create\<close> are left out; what
  \<open>checkEndpointReady\<close> writes to standard error and the diagnostic of \<open>glog.Exitf\<close> are
  part of the results.
\<close>

subsection \<open>Kubernetes objects, as far as the source reads them\<close>

record ServicePort =
  NodePort :: int \<comment> \<open>an int32 in the source; it is only compared with 0 and carried along\<close>

record ServiceSpec =
  Ports :: "ServicePort list"
  Type :: string

record Service =
  Namespace :: string
  Name :: string
  Spec :: ServiceSpec

record EndpointSubset =
  Addresses :: "string list"

record Endpoints =
  Subsets :: "EndpointSubset list"

subsection \<open>Errors\<close>

text \<open>
  A Go \<open>error\<close> value. \<open>External\<close> is an error handed back by a collaborator outside the
  package; \<open>Wrap\<close> is \<open>errors.Wrap\<close>/\<open>errors.Wrapf\<close> (the cause, then the message);
  \<open>New\<close> is \<open>errors.New\<close> and \<open>errors.Errorf\<close>; \<open>Errorf\<close> is \<open>fmt.Errorf\<close> with an
  error among its arguments (the message before it, then that error); \<open>RetriableError\<close> is \<open>&util.RetriableError{Err: e}\<close>;
  \<open>MissingNodePortError\<close> is the struct of that name; \<open>Aggregate\<close> is what
  \<open>util.MultiError.ToError\<close> hands back.
\<close>

datatype error =
    External string
  | New string
  | Errorf string error
  | Wrap error string
  | RetriableError error
  | MissingNodePortError Service
  | Aggregate "error list"

text \<open>The type switch \<open>err.(MissingNodePortError)\<close>.\<close>

fun isMissingNodePortError :: "error \<Rightarrow> bool" where
  "isMissingNodePortError (MissingNodePortError svc) = True"
| "isMissingNodePortError e = False"

section \<open>Service resolver\<close>

subsection \<open>Ports of a service\<close>

text \<open>The interface \<open>serviceGetter\<close>.\<close>

record serviceGetter =
  Get :: "string \<Rightarrow> error + Service"
  List :: "error + Service list"

definition getServiceFromServiceGetter :: "serviceGetter \<Rightarrow> string \<Rightarrow> error + Service" where
  "getServiceFromServiceGetter services service =
     (case Get services service of
        Inl err \<Rightarrow> Inl (Errorf (''Error getting '' @ service @ '' service: '') err)
      | Inr svc \<Rightarrow> Inr svc)"

text \<open>
  The loop \<open>for _, port := range svc.Spec.Ports\<close>, appending to \<open>nodePorts\<close> the node port
  of every port whose node port is positive.
\<close>

fun collectNodePorts :: "ServicePort list \<Rightarrow> int list \<Rightarrow> int list" where
  "collectNodePorts [] nodePorts = nodePorts"
| "collectNodePorts (port # ports) nodePorts =
     (if NodePort port > 0 then collectNodePorts ports (nodePorts @ [NodePort port])
      else collectNodePorts ports nodePorts)"

definition getServicePortsFromServiceGetter :: "serviceGetter \<Rightarrow> string \<Rightarrow> error + int list" where
  "getServicePortsFromServiceGetter services service =
     (case getServiceFromServiceGetter services service of
        Inl err \<Rightarrow> Inl err
      | Inr svc \<Rightarrow>
          (let nodePorts = (if length (Ports (Spec svc)) > 0
                            then collectNodePorts (Ports (Spec svc)) []
                            else [])
           in if length nodePorts = 0 then Inl (MissingNodePortError svc)
              else Inr nodePorts))"

subsection \<open>Endpoint readiness\<close>

definition notReadyMsg :: string where
  "notReadyMsg = ''Waiting, endpoint for service is not ready yet...'' @ [CHR 0x0A]"

text \<open>
  The loop \<open>for _, subset := range endpoint.Subsets\<close>. The result is the returned error and
  what was written to standard error.
\<close>

fun checkSubsets :: "EndpointSubset list \<Rightarrow> error option \<times> string list" where
  "checkSubsets [] = (None, [])"
| "checkSubsets (sub # subsets) =
     (if length (Addresses sub) = 0
      then (Some (RetriableError (New ''No endpoints for service are ready yet'')), [notReadyMsg])
      else checkSubsets subsets)"

definition checkEndpointReady :: "Endpoints \<Rightarrow> error option \<times> string list" where
  "checkEndpointReady endpoint =
     (if length (Subsets endpoint) = 0
      then (Some (RetriableError (New ''Endpoint for service is not ready yet'')), [notReadyMsg])
      else checkSubsets (Subsets endpoint))"

subsection \<open>URLs of a service\<close>

text \<open>
  \<open>client.Services(namespace)\<close> of the Kubernetes client set: one getter per namespace.
\<close>

record Clientset =
  Services :: "string \<Rightarrow> serviceGetter"

text \<open>
  A parsed \<open>*template.Template\<close> is what \<open>Execute\<close> writes for the struct \<open>{IP, Port}\<close>,
  or the error \<open>Execute\<close> returns. The nil template is \<open>None\<close>.
\<close>

type_synonym Template = "string \<Rightarrow> int \<Rightarrow> error + string"

text \<open>The package \<open>net/url\<close>: \<open>url.Parse\<close> and the method \<open>String\<close> of the URL it returns.\<close>

record 'u net_url =
  Parse :: "string \<Rightarrow> error + 'u"
  URLString :: "'u \<Rightarrow> string"

definition getServicePorts :: "Clientset \<Rightarrow> string \<Rightarrow> string \<Rightarrow> error + int list" where
  "getServicePorts client namespace service =
     (let services = Services client namespace
      in getServicePortsFromServiceGetter services service)"

text \<open>
  The body of the loop \<open>for _, port := range ports\<close> of \<open>getServiceURLsWithClient\<close>:
  execute the template on \<open>{ip, port}\<close>, parse what it wrote, and print the URL.
\<close>

definition renderPort :: "'u net_url \<Rightarrow> Template \<Rightarrow> string \<Rightarrow> int \<Rightarrow> error + string" where
  "renderPort U t ip port =
     (case t ip port of
        Inl err \<Rightarrow> Inl err
      | Inr doc \<Rightarrow>
          (case Parse U doc of
             Inl err \<Rightarrow> Inl err
           | Inr u \<Rightarrow> Inr (URLString U u)))"

text \<open>The loop itself, appending to \<open>urls\<close>.\<close>

fun renderPorts :: "'u net_url \<Rightarrow> Template \<Rightarrow> string \<Rightarrow> int list \<Rightarrow> string list \<Rightarrow> error + string list" where
  "renderPorts U t ip [] urls = Inr urls"
| "renderPorts U t ip (port # ports) urls =
     (case renderPort U t ip port of
        Inl err \<Rightarrow> Inl err
      | Inr url \<Rightarrow> renderPorts U t ip ports (urls @ [url]))"

definition getServiceURLsWithClient ::
  "'u net_url \<Rightarrow> Clientset \<Rightarrow> string \<Rightarrow> string \<Rightarrow> string \<Rightarrow> Template option \<Rightarrow> error + string list" where
  "getServiceURLsWithClient U client ip namespace service t =
     (case t of
        None \<Rightarrow> Inl (New ''Error, attempted to generate service url with nil --format template'')
      | Some t' \<Rightarrow>
          (case getServicePorts client namespace service of
             Inl err \<Rightarrow> Inl err
           | Inr ports \<Rightarrow> renderPorts U t' ip ports []))"

text \<open>The struct \<open>ServiceURL\<close>: namespace, name and URLs, in this order.\<close>

datatype ServiceURL = ServiceURL string string "string list"

fun URLs :: "ServiceURL \<Rightarrow> string list" where
  "URLs (ServiceURL namespace name urls) = urls"

text \<open>
  The loop \<open>for _, svc := range svcs.Items\<close> of \<open>GetServiceURLs\<close>. A \<open>ServiceURL\<close> built
  without URLs has the nil slice, the empty list here.
\<close>

fun collectServiceURLs ::
  "'u net_url \<Rightarrow> Clientset \<Rightarrow> string \<Rightarrow> Template option \<Rightarrow> Service list \<Rightarrow> ServiceURL list
     \<Rightarrow> error + ServiceURL list" where
  "collectServiceURLs U client ip t [] serviceURLs = Inr serviceURLs"
| "collectServiceURLs U client ip t (svc # svcs) serviceURLs =
     (case getServiceURLsWithClient U client ip (Namespace svc) (Name svc) t of
        Inl err \<Rightarrow>
          (if isMissingNodePortError err
           then collectServiceURLs U client ip t svcs
                  (serviceURLs @ [ServiceURL (Namespace svc) (Name svc) []])
           else Inl err)
      | Inr urls \<Rightarrow>
          collectServiceURLs U client ip t svcs
            (serviceURLs @ [ServiceURL (Namespace svc) (Name svc) urls]))"

section \<open>The world outside the package\<close>

text \<open>
  The constants of the packages \<open>constants\<close> and \<open>util\<close> that the source names.
\<close>

record constants =
  MachineName :: string
  GetMinipath :: string
  DefaultKubernetesVersion :: string
  DefaultCertPath :: string

record MachineConfig =
  MinikubeISO :: string
  Memory :: int
  CPUs :: int
  DiskSize :: int
  VMDriver :: string
  DockerEnv :: "string list"
  InsecureRegistry :: "string list"
  RegistryMirror :: "string list"
  HostOnlyCIDR :: string

record KubernetesConfig =
  KubernetesVersion :: string

text \<open>\<open>engine.Options\<close>, as far as \<open>engineOptions\<close> fills it.\<close>

record Options =
  engine_Env :: "string list"
  engine_InsecureRegistry :: "string list"
  engine_RegistryMirror :: "string list"

text \<open>
  A \<open>*host.Host\<close>: the fields the package itself writes, and the driver name the host was
  made for. What the library writes into a host lives in the world.
\<close>

record Host =
  DriverName :: string
  CertDir :: string
  StorePath :: string
  EngineOptions :: "Options option"

text \<open>The virtualbox driver value, as \<open>createVirtualboxHost\<close> configures it.\<close>

record VirtualboxDriver =
  vbox_MachineName :: string
  vbox_StorePath :: string
  Boot2DockerURL :: string
  vbox_Memory :: int
  vbox_CPU :: int
  vbox_DiskSize :: int
  vbox_HostOnlyCIDR :: string

text \<open>
  The value of \<open>var driver interface{}\<close> after the switch: the virtualbox driver, or the
  driver made by one of the four constructors that live in other files.
\<close>

datatype 'd driverValue = Virtualbox VirtualboxDriver | OtherDriver 'd

text \<open>
  Modelled from the spec: \<open>assets.CopyableFile\<close>, declared in another package of the
  repository: a (source-bytes-or-path, destination-path, permission-bits) triple.
\<close>

record CopyableFile =
  Source :: string
  Destination :: string
  PermissionBits :: string

text \<open>
  Every call the package makes on the world is logged. The world itself is a value of an
  arbitrary type \<open>'w\<close> that each external operation reads and updates.
\<close>

datatype event =
    EvExists string
  | EvLoad string
  | EvSave Host
  | EvCreate Host
  | EvNewHost string string
  | EvRemove string
  | EvGetState Host
  | EvStart Host
  | EvDriverRemove Host
  | EvDriverGetIP Host
  | EvConfigureAuth Host
  | EvCacheMinikubeISOFromURL string
  | EvClientConfig
  | EvNewForConfig
  | EvGetIP
  | EvGenerateCerts
  | EvNewSSHClient
  | EvReadFile string
  | EvTransfer string string string
  | EvUpdateLocalkubeFromURI
  | EvUpdateLocalkubeFromAsset
  | EvAddMinikubeAddonsDirToAssets
  | EvIsEnabled
  | EvTransferFile CopyableFile

type_synonym 'w run = "'w \<times> event list"

definition call :: "event \<Rightarrow> ('w \<Rightarrow> 'r \<times> 'w) \<Rightarrow> 'w run \<Rightarrow> 'r \<times> 'w run" where
  "call ev f s = (case f (fst s) of (r, w') \<Rightarrow> (r, (w', snd s @ [ev])))"

text \<open>
  A function that can end the process (\<open>glog.Exitf\<close>) either returns or exits with the
  diagnostic it printed.
\<close>

datatype 'a outcome = Return "error + 'a" | ProcessExit string

text \<open>
  \<open>libmachine.API\<close>, the methods of the host it loads and of that host's driver, the
  states of package \<open>state\<close>, the ISO downloader of the machine configuration, the driver
  constructors of the other files, and \<open>json.Marshal\<close>.
\<close>

record ('w, 's, 'd) libmachine =
  Exists :: "string \<Rightarrow> 'w \<Rightarrow> (error + bool) \<times> 'w"
  Load :: "string \<Rightarrow> 'w \<Rightarrow> (error + Host) \<times> 'w"
  Save :: "Host \<Rightarrow> 'w \<Rightarrow> error option \<times> 'w"
  Create :: "Host \<Rightarrow> 'w \<Rightarrow> error option \<times> 'w"
  NewHost :: "string \<Rightarrow> string \<Rightarrow> 'w \<Rightarrow> (error + Host) \<times> 'w"
  Remove :: "string \<Rightarrow> 'w \<Rightarrow> error option \<times> 'w"
  Driver_GetState :: "Host \<Rightarrow> 'w \<Rightarrow> ('s \<times> error option) \<times> 'w"
  Driver_Start :: "Host \<Rightarrow> 'w \<Rightarrow> error option \<times> 'w"
  Driver_Remove :: "Host \<Rightarrow> 'w \<Rightarrow> error option \<times> 'w"
  Driver_GetIP :: "Host \<Rightarrow> 'w \<Rightarrow> (error + string) \<times> 'w"
  ConfigureAuth :: "Host \<Rightarrow> 'w \<Rightarrow> error option \<times> 'w"
  Running :: 's
  StateString :: "'s \<Rightarrow> string"
  CacheMinikubeISOFromURL :: "string \<Rightarrow> 'w \<Rightarrow> error option \<times> 'w"
  GetISOFileURI :: "string \<Rightarrow> string"
  createVMwareFusionHost :: "MachineConfig \<Rightarrow> 'd"
  createKVMHost :: "MachineConfig \<Rightarrow> 'd"
  createXhyveHost :: "MachineConfig \<Rightarrow> 'd"
  createHypervHost :: "MachineConfig \<Rightarrow> 'd"
  Marshal :: "'d driverValue \<Rightarrow> error + string"

section \<open>Host lifecycle\<close>

definition engineOptions :: "MachineConfig \<Rightarrow> Options" where
  "engineOptions config =
     \<lparr>engine_Env = DockerEnv config,
      engine_InsecureRegistry = InsecureRegistry config,
      engine_RegistryMirror = RegistryMirror config\<rparr>"

definition createVirtualboxHost ::
  "constants \<Rightarrow> ('w, 's, 'd) libmachine \<Rightarrow> MachineConfig \<Rightarrow> VirtualboxDriver" where
  "createVirtualboxHost c api config =
     \<lparr>vbox_MachineName = MachineName c,
      vbox_StorePath = GetMinipath c,
      Boot2DockerURL = GetISOFileURI api (MinikubeISO config),
      vbox_Memory = Memory config,
      vbox_CPU = CPUs config,
      vbox_DiskSize = DiskSize config,
      vbox_HostOnlyCIDR = HostOnlyCIDR config\<rparr>"

text \<open>
  The \<open>switch config.VMDriver\<close> of \<open>createHost\<close>; \<open>None\<close> is its \<open>default\<close> branch.
\<close>

definition selectDriver ::
  "constants \<Rightarrow> ('w, 's, 'd) libmachine \<Rightarrow> MachineConfig \<Rightarrow> 'd driverValue option" where
  "selectDriver c api config =
     (if VMDriver config = ''virtualbox'' then Some (Virtualbox (createVirtualboxHost c api config))
      else if VMDriver config = ''vmwarefusion'' then Some (OtherDriver (createVMwareFusionHost api config))
      else if VMDriver config = ''kvm'' then Some (OtherDriver (createKVMHost api config))
      else if VMDriver config = ''xhyve'' then Some (OtherDriver (createXhyveHost api config))
      else if VMDriver config = ''hyperv'' then Some (OtherDriver (createHypervHost api config))
      else None)"

definition createHost ::
  "constants \<Rightarrow> ('w, 's, 'd) libmachine \<Rightarrow> MachineConfig \<Rightarrow> 'w run \<Rightarrow> Host outcome \<times> 'w run" where
  "createHost c api config s0 =
     (case call (EvCacheMinikubeISOFromURL (MinikubeISO config))
             (CacheMinikubeISOFromURL api (MinikubeISO config)) s0 of
        (Some err, s1) \<Rightarrow>
          (Return (Inl (Wrap err ''Error attempting to cache minikube ISO from URL'')), s1)
      | (None, s1) \<Rightarrow>
          (case selectDriver c api config of
             None \<Rightarrow> (ProcessExit (''Unsupported driver: '' @ VMDriver config @ [CHR 0x0A]), s1)
           | Some driver \<Rightarrow>
               (case Marshal api driver of
                  Inl err \<Rightarrow> (Return (Inl (Wrap err ''Error marshalling json'')), s1)
                | Inr data \<Rightarrow>
                    (case call (EvNewHost (VMDriver config) data)
                            (NewHost api (VMDriver config) data) s1 of
                       (Inl err, s2) \<Rightarrow> (Return (Inl (Wrap err ''Error creating new host'')), s2)
                     | (Inr h0, s2) \<Rightarrow>
                         (let h = h0\<lparr>CertDir := GetMinipath c,
                                     StorePath := GetMinipath c,
                                     EngineOptions := Some (engineOptions config)\<rparr>
                          in case call (EvCreate h) (Create api h) s2 of
                               (Some err, s3) \<Rightarrow> (Return (Inl (Wrap err ''Error creating host'')), s3)
                             | (None, s3) \<Rightarrow>
                                 (case call (EvSave h) (Save api h) s3 of
                                    (Some err, s4) \<Rightarrow>
                                      (Return (Inl (Wrap err ''Error attempting to save'')), s4)
                                  | (None, s4) \<Rightarrow> (Return (Inr h), s4)))))))"

text \<open>The block \<open>if s != state.Running { ... }\<close> of \<open>StartHost\<close>.\<close>

definition startStopped ::
  "('w, 's, 'd) libmachine \<Rightarrow> Host \<Rightarrow> 'w run \<Rightarrow> error option \<times> 'w run" where
  "startStopped api h s0 =
     (case call (EvStart h) (Driver_Start api h) s0 of
        (Some err, s1) \<Rightarrow> (Some (Wrap err ''Error starting stopped host''), s1)
      | (None, s1) \<Rightarrow>
          (case call (EvSave h) (Save api h) s1 of
             (Some err, s2) \<Rightarrow> (Some (Wrap err ''Error saving started host''), s2)
           | (None, s2) \<Rightarrow> (None, s2)))"

definition StartHost ::
  "constants \<Rightarrow> ('w, 's, 'd) libmachine \<Rightarrow> MachineConfig \<Rightarrow> 'w run \<Rightarrow> Host outcome \<times> 'w run" where
  "StartHost c api config s0 =
     (case call (EvExists (MachineName c)) (Exists api (MachineName c)) s0 of
        (Inl err, s1) \<Rightarrow>
          (Return (Inl (Wrap err (''Error checking if host exists: '' @ MachineName c))), s1)
      | (Inr exists, s1) \<Rightarrow>
          if \<not> exists then createHost c api config s1
          else
            (case call (EvLoad (MachineName c)) (Load api (MachineName c)) s1 of
               (Inl err, s2) \<Rightarrow>
                 (Return (Inl (Wrap err ''Error loading existing host. Please try running [minikube delete], then run [minikube start] again.'')), s2)
             | (Inr h, s2) \<Rightarrow>
                 (case call (EvGetState h) (Driver_GetState api h) s2 of
                    ((s, Some err), s3) \<Rightarrow>
                      (Return (Inl (Wrap err ''Error getting state for host'')), s3)
                  | ((s, None), s3) \<Rightarrow>
                      (case (if s \<noteq> Running api then startStopped api h s3 else (None, s3)) of
                         (Some err, s4) \<Rightarrow> (Return (Inl err), s4)
                       | (None, s4) \<Rightarrow>
                           (case call (EvConfigureAuth h) (ConfigureAuth api h) s4 of
                              (Some err, s5) \<Rightarrow>
                                (Return (Inl (RetriableError (Wrap err ''Error configuring auth on host''))), s5)
                            | (None, s5) \<Rightarrow> (Return (Inr h), s5))))))"

text \<open>
  Modelled from the spec: \<open>util.MultiError\<close>, whose declaration is in another package of
  the repository. The spec says of the delete path that multiple independent failures
  are collected and reported together rather than short-circuiting on the first, and that
  the overall result is an aggregate error: \<open>Collect\<close> keeps every non-nil error, in the
  order collected, and \<open>ToError\<close> is nil when nothing was collected and the aggregate of
  the collected errors otherwise.
\<close>

record MultiError =
  Errors :: "error list"

definition Collect :: "MultiError \<Rightarrow> error option \<Rightarrow> MultiError" where
  "Collect m err = (case err of None \<Rightarrow> m | Some e \<Rightarrow> m\<lparr>Errors := Errors m @ [e]\<rparr>)"

definition ToError :: "MultiError \<Rightarrow> error option" where
  "ToError m = (if Errors m = [] then None else Some (Aggregate (Errors m)))"

definition DeleteHost ::
  "constants \<Rightarrow> ('w, 's, 'd) libmachine \<Rightarrow> 'w run \<Rightarrow> error option \<times> 'w run" where
  "DeleteHost c api s0 =
     (case call (EvLoad (MachineName c)) (Load api (MachineName c)) s0 of
        (Inl err, s1) \<Rightarrow> (Some (Wrap err (''Error deleting host: '' @ MachineName c)), s1)
      | (Inr host, s1) \<Rightarrow>
          (let m = \<lparr>Errors = []\<rparr> in
           case call (EvDriverRemove host) (Driver_Remove api host) s1 of
             (r1, s2) \<Rightarrow>
               (let m = Collect m r1 in
                case call (EvRemove (MachineName c)) (Remove api (MachineName c)) s2 of
                  (r2, s3) \<Rightarrow>
                    (let m = Collect m r2 in (ToError m, s3)))))"

definition GetHostStatus ::
  "constants \<Rightarrow> ('w, 's, 'd) libmachine \<Rightarrow> 'w run \<Rightarrow> (error + string) \<times> 'w run" where
  "GetHostStatus c api s0 =
     (let dne = ''Does Not Exist'' in
      case call (EvExists (MachineName c)) (Exists api (MachineName c)) s0 of
        (Inl err, s1) \<Rightarrow>
          (Inl (Wrap err (''Error checking that api exists for: '' @ MachineName c)), s1)
      | (Inr exists, s1) \<Rightarrow>
          if \<not> exists then (Inr dne, s1)
          else
            (case call (EvLoad (MachineName c)) (Load api (MachineName c)) s1 of
               (Inl err, s2) \<Rightarrow> (Inl (Wrap err (''Error loading api for: '' @ MachineName c)), s2)
             | (Inr host, s2) \<Rightarrow>
                 (case call (EvGetState host) (Driver_GetState api host) s2 of
                    ((s, err), s3) \<Rightarrow>
                      if StateString api s = '''' then (Inr dne, s3)
                      else (case err of
                              Some e \<Rightarrow> (Inl (Wrap e ''Error getting host state''), s3)
                            | None \<Rightarrow> (Inr (StateString api s), s3)))))"

definition CheckIfApiExistsAndLoad ::
  "constants \<Rightarrow> ('w, 's, 'd) libmachine \<Rightarrow> 'w run \<Rightarrow> (error + Host) \<times> 'w run" where
  "CheckIfApiExistsAndLoad c api s0 =
     (case call (EvExists (MachineName c)) (Exists api (MachineName c)) s0 of
        (Inl err, s1) \<Rightarrow>
          (Inl (Wrap err (''Error checking that api exists for: '' @ MachineName c)), s1)
      | (Inr exists, s1) \<Rightarrow>
          if \<not> exists
          then (Inl (New (''Machine does not exist for api.Exists('' @ MachineName c @ '')'')), s1)
          else
            (case call (EvLoad (MachineName c)) (Load api (MachineName c)) s1 of
               (Inl err, s2) \<Rightarrow> (Inl (Wrap err (''Error loading api for: '' @ MachineName c)), s2)
             | (Inr host, s2) \<Rightarrow> (Inr host, s2)))"

section \<open>Listing the services of a namespace\<close>

text \<open>
  \<open>clientcmd\<close> and \<open>kubernetes.NewForConfig\<close>. The client set that comes back is a snapshot
  of the cluster: its \<open>Get\<close> and \<open>List\<close> are functions.
\<close>

record 'w kube =
  ClientConfig :: "'w \<Rightarrow> (error + string) \<times> 'w"
  NewForConfig :: "string \<Rightarrow> 'w \<Rightarrow> (error + Clientset) \<times> 'w"

definition GetKubernetesClient :: "'w kube \<Rightarrow> 'w run \<Rightarrow> (error + Clientset) \<times> 'w run" where
  "GetKubernetesClient K s0 =
     (case call EvClientConfig (ClientConfig K) s0 of
        (Inl err, s1) \<Rightarrow> (Inl (Errorf ''Error creating kubeConfig: '' err), s1)
      | (Inr config, s1) \<Rightarrow>
          (case call EvNewForConfig (NewForConfig K config) s1 of
             (Inl err, s2) \<Rightarrow>
               (Inl (Wrap err ''Error creating new client from kubeConfig.ClientConfig()''), s2)
           | (Inr client, s2) \<Rightarrow> (Inr client, s2)))"

definition GetServiceURLs ::
  "constants \<Rightarrow> ('w, 's, 'd) libmachine \<Rightarrow> 'w kube \<Rightarrow> 'u net_url \<Rightarrow> string \<Rightarrow> Template option
     \<Rightarrow> 'w run \<Rightarrow> (error + ServiceURL list) \<times> 'w run" where
  "GetServiceURLs c api K U namespace t s0 =
     (case CheckIfApiExistsAndLoad c api s0 of
        (Inl err, s1) \<Rightarrow> (Inl err, s1)
      | (Inr host, s1) \<Rightarrow>
          (case call (EvDriverGetIP host) (Driver_GetIP api host) s1 of
             (Inl err, s2) \<Rightarrow> (Inl err, s2)
           | (Inr ip, s2) \<Rightarrow>
               (case GetKubernetesClient K s2 of
                  (Inl err, s3) \<Rightarrow> (Inl err, s3)
                | (Inr client, s3) \<Rightarrow>
                    (let getter = Services client namespace in
                     case List getter of
                       Inl err \<Rightarrow> (Inl err, s3)
                     | Inr svcs \<Rightarrow> (collectServiceURLs U client ip t svcs [], s3)))))"

section \<open>Certificates and cluster update\<close>

text \<open>\<open>strings.HasSuffix\<close>.\<close>

definition HasSuffix :: "string \<Rightarrow> string \<Rightarrow> bool" where
  "HasSuffix s suffix =
     (length s \<ge> length suffix \<and> drop (length s - length suffix) s = suffix)"

definition certs :: "string list" where
  "certs = [''ca.crt'', ''ca.key'', ''apiserver.crt'', ''apiserver.key'']"

text \<open>An addon bundle of package \<open>assets\<close>: its enablement check and its files.\<close>

record 'w Addon =
  IsEnabled :: "'w \<Rightarrow> (bool \<times> error option) \<times> 'w"
  Assets :: "CopyableFile list"

text \<open>
  The driver handed to \<open>SetupCerts\<close> and \<open>UpdateCluster\<close>, the packages \<open>net\<close>,
  \<open>filepath\<close>, \<open>ioutil\<close>, \<open>sshutil\<close> and \<open>assets\<close>, and the functions of the other files of
  the package (\<open>GenerateCerts\<close> and the two localkube updaters). A byte slice is a string.
\<close>

record ('w, 'c) provision =
  GetIP :: "'w \<Rightarrow> (error + string) \<times> 'w"
  ParseIP :: "string \<Rightarrow> string"
  Join :: "string \<Rightarrow> string \<Rightarrow> string"
  GenerateCerts :: "string \<Rightarrow> string \<Rightarrow> string \<Rightarrow> string \<Rightarrow> string \<Rightarrow> 'w \<Rightarrow> error option \<times> 'w"
  NewSSHClient :: "'w \<Rightarrow> (error + 'c) \<times> 'w"
  ReadFile :: "string \<Rightarrow> 'w \<Rightarrow> (error + string) \<times> 'w"
  Transfer :: "string \<Rightarrow> nat \<Rightarrow> string \<Rightarrow> string \<Rightarrow> string \<Rightarrow> 'c \<Rightarrow> 'w \<Rightarrow> error option \<times> 'w"
  updateLocalkubeFromURI :: "KubernetesConfig \<Rightarrow> 'c \<Rightarrow> 'w \<Rightarrow> error option \<times> 'w"
  updateLocalkubeFromAsset :: "'c \<Rightarrow> 'w \<Rightarrow> error option \<times> 'w"
  AddMinikubeAddonsDirToAssets :: "CopyableFile list \<Rightarrow> 'w \<Rightarrow> CopyableFile list \<times> 'w"
  Addons :: "'w Addon list"
  TransferFile :: "CopyableFile \<Rightarrow> 'c \<Rightarrow> 'w \<Rightarrow> error option \<times> 'w"

text \<open>The loop \<open>for _, cert := range certs\<close> of \<open>SetupCerts\<close>.\<close>

fun transferCerts ::
  "constants \<Rightarrow> ('w, 'c) provision \<Rightarrow> string \<Rightarrow> 'c \<Rightarrow> string list \<Rightarrow> 'w run \<Rightarrow> error option \<times> 'w run" where
  "transferCerts c E localPath client [] s = (None, s)"
| "transferCerts c E localPath client (cert # rest) s =
     (let p = Join E localPath cert in
      case call (EvReadFile p) (ReadFile E p) s of
        (Inl err, s1) \<Rightarrow> (Some (Wrap err (''Error reading file: '' @ p)), s1)
      | (Inr data, s1) \<Rightarrow>
          (let perms = (if HasSuffix cert ''.key'' then ''0600'' else ''0644'') in
           case call (EvTransfer (DefaultCertPath c) cert perms)
                  (Transfer E data (length data) (DefaultCertPath c) cert perms client) s1 of
             (Some err, s2) \<Rightarrow> (Some (Wrap err (''Error transferring data: '' @ data)), s2)
           | (None, s2) \<Rightarrow> transferCerts c E localPath client rest s2))"

definition SetupCerts :: "constants \<Rightarrow> ('w, 'c) provision \<Rightarrow> 'w run \<Rightarrow> error option \<times> 'w run" where
  "SetupCerts c E s0 =
     (let localPath = GetMinipath c in
      case call EvGetIP (GetIP E) s0 of
        (Inl err, s1) \<Rightarrow> (Some (Wrap err ''Error getting ip from driver''), s1)
      | (Inr ipStr, s1) \<Rightarrow>
          (let ip = ParseIP E ipStr;
               caCert = Join E localPath ''ca.crt'';
               caKey = Join E localPath ''ca.key'';
               publicPath = Join E localPath ''apiserver.crt'';
               privatePath = Join E localPath ''apiserver.key''
           in case call EvGenerateCerts (GenerateCerts E caCert caKey publicPath privatePath ip) s1 of
                (Some err, s2) \<Rightarrow> (Some (Wrap err ''Error generating certs''), s2)
              | (None, s2) \<Rightarrow>
                  (case call EvNewSSHClient (NewSSHClient E) s2 of
                     (Inl err, s3) \<Rightarrow> (Some (Wrap err ''Error creating new ssh client''), s3)
                   | (Inr client, s3) \<Rightarrow> transferCerts c E localPath client certs s3)))"

definition localkubeURIWasSpecified :: "constants \<Rightarrow> KubernetesConfig \<Rightarrow> bool" where
  "localkubeURIWasSpecified c config = (KubernetesVersion config \<noteq> DefaultKubernetesVersion c)"

text \<open>The loop \<open>for _, addonBundle := range assets.Addons\<close>, in the order the range yields.\<close>

fun mergeAddons ::
  "'w Addon list \<Rightarrow> CopyableFile list \<Rightarrow> 'w run \<Rightarrow> (error + CopyableFile list) \<times> 'w run" where
  "mergeAddons [] copyableFiles s = (Inr copyableFiles, s)"
| "mergeAddons (addonBundle # rest) copyableFiles s =
     (case call EvIsEnabled (IsEnabled addonBundle) s of
        ((isEnabled, err), s1) \<Rightarrow>
          if err = None \<and> isEnabled
          then mergeAddons rest (copyableFiles @ Assets addonBundle) s1
          else (case err of
                  Some e \<Rightarrow> (Inl e, s1)
                | None \<Rightarrow> mergeAddons rest copyableFiles s1))"

text \<open>The loop \<open>for _, copyableFile := range copyableFiles\<close>.\<close>

fun transferFiles ::
  "('w, 'c) provision \<Rightarrow> 'c \<Rightarrow> CopyableFile list \<Rightarrow> 'w run \<Rightarrow> error option \<times> 'w run" where
  "transferFiles E client [] s = (None, s)"
| "transferFiles E client (copyableFile # rest) s =
     (case call (EvTransferFile copyableFile) (TransferFile E copyableFile client) s of
        (Some err, s1) \<Rightarrow> (Some err, s1)
      | (None, s1) \<Rightarrow> transferFiles E client rest s1)"

text \<open>The branch \<open>if localkubeURIWasSpecified(config) { ... } else { ... }\<close>.\<close>

definition updateLocalkube ::
  "constants \<Rightarrow> ('w, 'c) provision \<Rightarrow> KubernetesConfig \<Rightarrow> 'c \<Rightarrow> 'w run \<Rightarrow> error option \<times> 'w run" where
  "updateLocalkube c E config client s1 =
     (if localkubeURIWasSpecified c config
      then (case call EvUpdateLocalkubeFromURI (updateLocalkubeFromURI E config client) s1 of
              (Some err, s2) \<Rightarrow> (Some (Wrap err ''Error updating localkube from uri''), s2)
            | (None, s2) \<Rightarrow> (None, s2))
      else (case call EvUpdateLocalkubeFromAsset (updateLocalkubeFromAsset E client) s1 of
              (Some err, s2) \<Rightarrow> (Some (Wrap err ''Error updating localkube from asset''), s2)
            | (None, s2) \<Rightarrow> (None, s2)))"

definition UpdateCluster ::
  "constants \<Rightarrow> ('w, 'c) provision \<Rightarrow> KubernetesConfig \<Rightarrow> 'w run \<Rightarrow> error option \<times> 'w run" where
  "UpdateCluster c E config s0 =
     (case call EvNewSSHClient (NewSSHClient E) s0 of
        (Inl err, s1) \<Rightarrow> (Some (Wrap err ''Error creating new ssh client''), s1)
      | (Inr client, s1) \<Rightarrow>
          (case updateLocalkube c E config client s1 of
             (Some err, s2) \<Rightarrow> (Some err, s2)
           | (None, s2) \<Rightarrow>
               (case call EvAddMinikubeAddonsDirToAssets (AddMinikubeAddonsDirToAssets E []) s2 of
                  (fileAssets, s3) \<Rightarrow>
                    (case mergeAddons (Addons E) [] s3 of
                       (Inl err, s4) \<Rightarrow> (Some err, s4)
                     | (Inr copyableFiles, s4) \<Rightarrow>
                         transferFiles E client (copyableFiles @ fileAssets) s4))))"

section \<open>Example inputs\<close>

text \<open>
  One concrete installation, on which the theorems below are run. The world of the machine
  store is the number of writes made to it so far.
\<close>

definition example_constants :: constants where
  "example_constants =
     \<lparr>MachineName = ''minikube'',
      GetMinipath = ''/home/user/.minikube'',
      DefaultKubernetesVersion = ''v1.5.1'',
      DefaultCertPath = ''/var/lib/localkube/certs/''\<rparr>"

definition example_config :: MachineConfig where
  "example_config =
     \<lparr>MinikubeISO = ''https://storage.googleapis.com/minikube/minikube.iso'',
      Memory = 2048,
      CPUs = 2,
      DiskSize = 20000,
      VMDriver = ''docker'',
      DockerEnv = [],
      InsecureRegistry = [],
      RegistryMirror = [],
      HostOnlyCIDR = ''192.168.99.1/24''\<rparr>"

definition example_host :: Host where
  "example_host =
     \<lparr>DriverName = ''virtualbox'',
      CertDir = ''/home/user/.minikube'',
      StorePath = ''/home/user/.minikube'',
      EngineOptions = None\<rparr>"

text \<open>
  A machine store that holds a running host; removing the VM through its driver fails,
  removing the record succeeds.
\<close>

definition example_api :: "(nat, string, string) libmachine" where
  "example_api =
     \<lparr>Exists = (\<lambda>name w. (Inr True, w)),
      Load = (\<lambda>name w. (Inr example_host, w)),
      Save = (\<lambda>h w. (None, Suc w)),
      Create = (\<lambda>h w. (None, Suc w)),
      NewHost = (\<lambda>name data w.
        (Inr \<lparr>DriverName = name, CertDir = [], StorePath = [], EngineOptions = None\<rparr>, w)),
      Remove = (\<lambda>name w. (None, Suc w)),
      Driver_GetState = (\<lambda>h w. ((''Running'', None), w)),
      Driver_Start = (\<lambda>h w. (None, Suc w)),
      Driver_Remove = (\<lambda>h w. (Some (External ''machine does not exist''), w)),
      Driver_GetIP = (\<lambda>h w. (Inr ''10.0.0.5'', w)),
      ConfigureAuth = (\<lambda>h w. (None, w)),
      Running = ''Running'',
      StateString = (\<lambda>s. s),
      CacheMinikubeISOFromURL = (\<lambda>iso w. (None, w)),
      GetISOFileURI = (\<lambda>iso. iso),
      createVMwareFusionHost = (\<lambda>config. ''vmwarefusion''),
      createKVMHost = (\<lambda>config. ''kvm''),
      createXhyveHost = (\<lambda>config. ''xhyve''),
      createHypervHost = (\<lambda>config. ''hyperv''),
      Marshal = (\<lambda>driver. Inr ''{}'')\<rparr>"

text \<open>The same store with a driver that answers the empty state together with an error.\<close>

definition example_api_no_state :: "(nat, string, string) libmachine" where
  "example_api_no_state =
     example_api\<lparr>Driver_GetState := (\<lambda>h w. (([], Some (External ''exit status 1'')), w))\<rparr>"

text \<open>The same store where removing the record fails as well.\<close>

definition example_api_remove_fails :: "(nat, string, string) libmachine" where
  "example_api_remove_fails =
     example_api\<lparr>Remove := (\<lambda>name w. (Some (External ''permission denied''), w))\<rparr>"

text \<open>The same store with an ISO download that fails.\<close>

definition example_api_no_iso :: "(nat, string, string) libmachine" where
  "example_api_no_iso =
     example_api\<lparr>CacheMinikubeISOFromURL := (\<lambda>iso w. (Some (External ''connection refused''), w))\<rparr>"

text \<open>A namespace with a service on node port 31000 and a service without node port.\<close>

definition web_service :: Service where
  "web_service =
     \<lparr>Namespace = ''default'', Name = ''web'',
      Spec = \<lparr>Ports = [\<lparr>NodePort = 0\<rparr>, \<lparr>NodePort = 31000\<rparr>], Type = ''NodePort''\<rparr>\<rparr>"

definition db_service :: Service where
  "db_service =
     \<lparr>Namespace = ''default'', Name = ''db'',
      Spec = \<lparr>Ports = [\<lparr>NodePort = 0\<rparr>], Type = ''ClusterIP''\<rparr>\<rparr>"

definition example_getter :: serviceGetter where
  "example_getter =
     \<lparr>Get = (\<lambda>name. if name = ''web'' then Inr web_service
                    else if name = ''db'' then Inr db_service
                    else Inl (External ''not found'')),
      List = Inr [web_service, db_service]\<rparr>"

definition example_client :: Clientset where
  "example_client = \<lparr>Services = (\<lambda>namespace. example_getter)\<rparr>"

definition example_kube :: "nat kube" where
  "example_kube =
     \<lparr>ClientConfig = (\<lambda>w. (Inr ''kubeconfig'', w)),
      NewForConfig = (\<lambda>config w. (Inr example_client, w))\<rparr>"

text \<open>A template that renders port 31000 only, and a parser that accepts every string.\<close>

definition example_template :: Template where
  "example_template =
     (\<lambda>ip port. if port = 31000 then Inr (''http://'' @ ip @ '':31000'')
                else Inl (External ''template: cannot render this port''))"

definition example_url :: "string net_url" where
  "example_url = \<lparr>Parse = (\<lambda>s. Inr s), URLString = (\<lambda>u. u)\<rparr>"

text \<open>
  A VM that accepts everything it is sent, with one enabled addon. Its world is the list
  of what it has received so far: for a certificate the directory, the file name and the
  permission string handed to \<open>Transfer\<close>, for localkube the source it came from, for an
  asset its destination, source and permission bits.
\<close>

definition example_provision :: "(string list, string) provision" where
  "example_provision =
     \<lparr>GetIP = (\<lambda>w. (Inr ''10.0.0.5'', w)),
      ParseIP = (\<lambda>s. s),
      Join = (\<lambda>dir name. dir @ ''/'' @ name),
      GenerateCerts = (\<lambda>caCert caKey publicPath privatePath ip w. (None, w)),
      NewSSHClient = (\<lambda>w. (Inr ''ssh'', w)),
      ReadFile = (\<lambda>p w. (Inr ''PEM'', w)),
      Transfer = (\<lambda>data len dir name perms client w. (None, w @ [dir @ name @ '' '' @ perms])),
      updateLocalkubeFromURI = (\<lambda>config client w.
        (None, w @ [''localkube '' @ KubernetesVersion config @ '' from its URI''])),
      updateLocalkubeFromAsset = (\<lambda>client w. (None, w @ [''localkube from the bundled asset''])),
      AddMinikubeAddonsDirToAssets = (\<lambda>files w. (files, w)),
      Addons = [\<lparr>IsEnabled = (\<lambda>w. ((True, None), w)),
                 Assets = [\<lparr>Source = ''dashboard-rc.yaml'',
                            Destination = ''/etc/kubernetes/addons/'',
                            PermissionBits = ''0640''\<rparr>]\<rparr>],
      TransferFile = (\<lambda>file client w.
        (None, w @ [Destination file @ Source file @ '' '' @ PermissionBits file]))\<rparr>"

section \<open>Properties\<close>

subsection \<open>Certificate permissions\<close>

lemma transferCerts_trace:
  "\<exists>new. snd (snd (transferCerts c E localPath client names (w, tr))) = tr @ new
     \<and> (\<forall>dir name perms. EvTransfer dir name perms \<in> set new \<longrightarrow>
           dir = DefaultCertPath c \<and> name \<in> set names
           \<and> perms = (if HasSuffix name ''.key'' then ''0600'' else ''0644''))"
proof (induction names arbitrary: w tr)
  case Nil
  show ?case by simp
next
  case (Cons cert rest)
  let ?p = "Join E localPath cert"
  let ?perms = "if HasSuffix cert ''.key'' then ''0600'' else ''0644''"
  obtain rd w1 where rf: "ReadFile E ?p w = (rd, w1)"
    by (metis prod.exhaust)
  show ?case
  proof (cases rd)
    case (Inl err)
    then have "snd (snd (transferCerts c E localPath client (cert # rest) (w, tr))) =
                 tr @ [EvReadFile ?p]"
      by (simp add: call_def rf Let_def)
    then show ?thesis by simp
  next
    case (Inr data)
    obtain r w2 where
      tf: "Transfer E data (length data) (DefaultCertPath c) cert ?perms client w1 = (r, w2)"
      by (metis prod.exhaust)
    let ?tr2 = "tr @ [EvReadFile ?p, EvTransfer (DefaultCertPath c) cert ?perms]"
    show ?thesis
    proof (cases r)
      case (Some err)
      then have "snd (snd (transferCerts c E localPath client (cert # rest) (w, tr))) = ?tr2"
        using Inr by (simp add: call_def rf tf Let_def)
      then show ?thesis by simp
    next
      case None
      then have step: "transferCerts c E localPath client (cert # rest) (w, tr) =
                         transferCerts c E localPath client rest (w2, ?tr2)"
        using Inr by (simp add: call_def rf tf Let_def)
      from Cons.IH [of w2 ?tr2] obtain new where
        new: "snd (snd (transferCerts c E localPath client rest (w2, ?tr2))) = ?tr2 @ new" and
        ok: "\<forall>dir name perms. EvTransfer dir name perms \<in> set new \<longrightarrow>
               dir = DefaultCertPath c \<and> name \<in> set rest
               \<and> perms = (if HasSuffix name ''.key'' then ''0600'' else ''0644'')"
        by blast
      have "snd (snd (transferCerts c E localPath client (cert # rest) (w, tr))) =
              tr @ ([EvReadFile ?p, EvTransfer (DefaultCertPath c) cert ?perms] @ new)"
        unfolding step using new by simp
      moreover have "\<forall>dir name perms.
           EvTransfer dir name perms \<in> set ([EvReadFile ?p, EvTransfer (DefaultCertPath c) cert ?perms] @ new) \<longrightarrow>
           dir = DefaultCertPath c \<and> name \<in> set (cert # rest)
           \<and> perms = (if HasSuffix name ''.key'' then ''0600'' else ''0644'')"
        using ok by auto
      ultimately show ?thesis by blast
    qed
  qed
qed

lemma SetupCerts_trace:
  "\<exists>new. snd (snd (SetupCerts c E (w0, []))) = [EvGetIP] @ new
     \<and> (\<forall>dir name perms. EvTransfer dir name perms \<in> set new \<longrightarrow>
           dir = DefaultCertPath c \<and> name \<in> set certs
           \<and> perms = (if HasSuffix name ''.key'' then ''0600'' else ''0644''))"
proof -
  obtain ipr w1 where ip: "GetIP E w0 = (ipr, w1)" by (metis prod.exhaust)
  show ?thesis
  proof (cases ipr)
    case (Inl err)
    then have "snd (snd (SetupCerts c E (w0, []))) = [EvGetIP] @ []"
      by (simp add: SetupCerts_def call_def ip Let_def)
    then show ?thesis by simp
  next
    case (Inr ipStr)
    obtain g w2 where
      gen: "GenerateCerts E (Join E (GetMinipath c) ''ca.crt'') (Join E (GetMinipath c) ''ca.key'')
              (Join E (GetMinipath c) ''apiserver.crt'') (Join E (GetMinipath c) ''apiserver.key'')
              (ParseIP E ipStr) w1 = (g, w2)"
      by (metis prod.exhaust)
    show ?thesis
    proof (cases g)
      case (Some err)
      then have "snd (snd (SetupCerts c E (w0, []))) = [EvGetIP] @ [EvGenerateCerts]"
        using Inr by (simp add: SetupCerts_def call_def ip gen Let_def)
      then show ?thesis by simp
    next
      case None
      obtain cl w3 where ssh: "NewSSHClient E w2 = (cl, w3)" by (metis prod.exhaust)
      show ?thesis
      proof (cases cl)
        case (Inl err)
        then have "snd (snd (SetupCerts c E (w0, []))) = [EvGetIP] @ [EvGenerateCerts, EvNewSSHClient]"
          using Inr None by (simp add: SetupCerts_def call_def ip gen ssh Let_def)
        then show ?thesis by simp
      next
        case client: (Inr client)
        let ?tr = "[EvGetIP, EvGenerateCerts, EvNewSSHClient]"
        have run: "SetupCerts c E (w0, []) = transferCerts c E (GetMinipath c) client certs (w3, ?tr)"
          using Inr None client by (simp add: SetupCerts_def call_def ip gen ssh Let_def)
        from transferCerts_trace [of c E "GetMinipath c" client certs w3 ?tr] obtain new where
          new: "snd (snd (transferCerts c E (GetMinipath c) client certs (w3, ?tr))) = ?tr @ new" and
          ok: "\<forall>dir name perms. EvTransfer dir name perms \<in> set new \<longrightarrow>
                 dir = DefaultCertPath c \<and> name \<in> set certs
                 \<and> perms = (if HasSuffix name ''.key'' then ''0600'' else ''0644'')"
          by blast
        have "snd (snd (SetupCerts c E (w0, []))) = [EvGetIP] @ ([EvGenerateCerts, EvNewSSHClient] @ new)"
          unfolding run using new by simp
        moreover have "\<forall>dir name perms.
             EvTransfer dir name perms \<in> set ([EvGenerateCerts, EvNewSSHClient] @ new) \<longrightarrow>
             dir = DefaultCertPath c \<and> name \<in> set certs
             \<and> perms = (if HasSuffix name ''.key'' then ''0600'' else ''0644'')"
          using ok by auto
        ultimately show ?thesis by blast
      qed
    qed
  qed
qed

lemma transferCerts_permitted_only:
  assumes "set names \<subseteq> permitted"
  shows "transferCerts c
           (E\<lparr>Transfer := (\<lambda>data len dir name perms client w.
                 if name \<in> permitted \<and> dir = DefaultCertPath c \<and> len = length data
                    \<and> perms = (if HasSuffix name ''.key'' then ''0600'' else ''0644'')
                 then Transfer E data len dir name perms client w
                 else other data len dir name perms client w)\<rparr>)
           localPath client names s =
         transferCerts c E localPath client names s"
  using assms
proof (induction names arbitrary: s)
  case Nil
  show ?case by simp
next
  case (Cons cert rest)
  from Cons.prems have cert: "cert \<in> permitted" and rest: "set rest \<subseteq> permitted"
    by simp_all
  show ?case
    by (simp add: call_def Let_def cert Cons.IH [OF rest]
        split: prod.splits sum.splits option.splits)
qed

text \<open>
  C1. In \<open>SetupCerts\<close>, a certificate file is handed to the transfer primitive with the
  permission string \<open>0600\<close> if its name ends in \<open>.key\<close>, and with \<open>0644\<close> otherwise.
  First, for every run: what the primitive would do when handed a file that is not one
  of \<open>certs\<close>, another directory, another length, or a permission string other than the
  one its name calls for, never matters to the result, the world or the log of
  \<open>SetupCerts\<close>, so the primitive never receives such arguments. Second, when every step
  succeeds: the four files are read and transferred in the order of \<open>certs\<close>, \<open>ca.crt\<close> and
  \<open>apiserver.crt\<close> with \<open>0644\<close>, \<open>ca.key\<close> and \<open>apiserver.key\<close> with \<open>0600\<close>, and the world
  left is the one the fourth transfer leaves. Third, every transfer in the log carries a
  name of \<open>certs\<close> and the permission string its name calls for; of the four names,
  \<open>ca.key\<close> and \<open>apiserver.key\<close> end in \<open>.key\<close>.
\<close>

theorem SetupCerts_key_files_owner_only:
  "SetupCerts c
     (E\<lparr>Transfer := (\<lambda>data len dir name perms client w.
           if name \<in> set certs \<and> dir = DefaultCertPath c \<and> len = length data
              \<and> perms = (if HasSuffix name ''.key'' then ''0600'' else ''0644'')
           then Transfer E data len dir name perms client w
           else other data len dir name perms client w)\<rparr>) s0 =
   SetupCerts c E s0
   \<and> (GetIP E w0 = (Inr ipStr, w1)
       \<and> GenerateCerts E (Join E (GetMinipath c) ''ca.crt'') (Join E (GetMinipath c) ''ca.key'')
            (Join E (GetMinipath c) ''apiserver.crt'') (Join E (GetMinipath c) ''apiserver.key'')
            (ParseIP E ipStr) w1 = (None, w2)
       \<and> NewSSHClient E w2 = (Inr client, w3)
       \<and> ReadFile E (Join E (GetMinipath c) ''ca.crt'') w3 = (Inr d1, w4)
       \<and> Transfer E d1 (length d1) (DefaultCertPath c) ''ca.crt'' ''0644'' client w4 = (None, w5)
       \<and> ReadFile E (Join E (GetMinipath c) ''ca.key'') w5 = (Inr d2, w6)
       \<and> Transfer E d2 (length d2) (DefaultCertPath c) ''ca.key'' ''0600'' client w6 = (None, w7)
       \<and> ReadFile E (Join E (GetMinipath c) ''apiserver.crt'') w7 = (Inr d3, w8)
       \<and> Transfer E d3 (length d3) (DefaultCertPath c) ''apiserver.crt'' ''0644'' client w8 = (None, w9)
       \<and> ReadFile E (Join E (GetMinipath c) ''apiserver.key'') w9 = (Inr d4, w10)
       \<and> Transfer E d4 (length d4) (DefaultCertPath c) ''apiserver.key'' ''0600'' client w10 = (None, w11)
       \<longrightarrow> SetupCerts c E (w0, []) =
             (None,
              (w11,
               [EvGetIP, EvGenerateCerts, EvNewSSHClient,
                EvReadFile (Join E (GetMinipath c) ''ca.crt''),
                EvTransfer (DefaultCertPath c) ''ca.crt'' ''0644'',
                EvReadFile (Join E (GetMinipath c) ''ca.key''),
                EvTransfer (DefaultCertPath c) ''ca.key'' ''0600'',
                EvReadFile (Join E (GetMinipath c) ''apiserver.crt''),
                EvTransfer (DefaultCertPath c) ''apiserver.crt'' ''0644'',
                EvReadFile (Join E (GetMinipath c) ''apiserver.key''),
                EvTransfer (DefaultCertPath c) ''apiserver.key'' ''0600''])))
   \<and> (EvTransfer dir name perms \<in> set (snd (snd (SetupCerts c E (w0, [])))) \<longrightarrow>
        name \<in> set certs
        \<and> (HasSuffix name ''.key'' \<longrightarrow> perms = ''0600'')
        \<and> (\<not> HasSuffix name ''.key'' \<longrightarrow> perms = ''0644''))
   \<and> map (\<lambda>name. HasSuffix name ''.key'') certs = [False, True, False, True]"
proof -
  have permitted: "SetupCerts c
     (E\<lparr>Transfer := (\<lambda>data len dir name perms client w.
           if name \<in> set certs \<and> dir = DefaultCertPath c \<and> len = length data
              \<and> perms = (if HasSuffix name ''.key'' then ''0600'' else ''0644'')
           then Transfer E data len dir name perms client w
           else other data len dir name perms client w)\<rparr>) s0 =
   SetupCerts c E s0"
    by (simp add: SetupCerts_def call_def Let_def
        transferCerts_permitted_only [of certs "set certs", simplified]
        split: prod.splits sum.splits option.splits)
  have success: "GetIP E w0 = (Inr ipStr, w1)
       \<and> GenerateCerts E (Join E (GetMinipath c) ''ca.crt'') (Join E (GetMinipath c) ''ca.key'')
            (Join E (GetMinipath c) ''apiserver.crt'') (Join E (GetMinipath c) ''apiserver.key'')
            (ParseIP E ipStr) w1 = (None, w2)
       \<and> NewSSHClient E w2 = (Inr client, w3)
       \<and> ReadFile E (Join E (GetMinipath c) ''ca.crt'') w3 = (Inr d1, w4)
       \<and> Transfer E d1 (length d1) (DefaultCertPath c) ''ca.crt'' ''0644'' client w4 = (None, w5)
       \<and> ReadFile E (Join E (GetMinipath c) ''ca.key'') w5 = (Inr d2, w6)
       \<and> Transfer E d2 (length d2) (DefaultCertPath c) ''ca.key'' ''0600'' client w6 = (None, w7)
       \<and> ReadFile E (Join E (GetMinipath c) ''apiserver.crt'') w7 = (Inr d3, w8)
       \<and> Transfer E d3 (length d3) (DefaultCertPath c) ''apiserver.crt'' ''0644'' client w8 = (None, w9)
       \<and> ReadFile E (Join E (GetMinipath c) ''apiserver.key'') w9 = (Inr d4, w10)
       \<and> Transfer E d4 (length d4) (DefaultCertPath c) ''apiserver.key'' ''0600'' client w10 = (None, w11)
       \<longrightarrow> SetupCerts c E (w0, []) =
             (None,
              (w11,
               [EvGetIP, EvGenerateCerts, EvNewSSHClient,
                EvReadFile (Join E (GetMinipath c) ''ca.crt''),
                EvTransfer (DefaultCertPath c) ''ca.crt'' ''0644'',
                EvReadFile (Join E (GetMinipath c) ''ca.key''),
                EvTransfer (DefaultCertPath c) ''ca.key'' ''0600'',
                EvReadFile (Join E (GetMinipath c) ''apiserver.crt''),
                EvTransfer (DefaultCertPath c) ''apiserver.crt'' ''0644'',
                EvReadFile (Join E (GetMinipath c) ''apiserver.key''),
                EvTransfer (DefaultCertPath c) ''apiserver.key'' ''0600'']))"
    by (simp add: SetupCerts_def certs_def call_def Let_def HasSuffix_def)
  from SetupCerts_trace [of c E w0] obtain new where
    tr: "snd (snd (SetupCerts c E (w0, []))) = [EvGetIP] @ new" and
    ok: "\<forall>dir name perms. EvTransfer dir name perms \<in> set new \<longrightarrow>
           dir = DefaultCertPath c \<and> name \<in> set certs
           \<and> perms = (if HasSuffix name ''.key'' then ''0600'' else ''0644'')"
    by blast
  have labels: "EvTransfer dir name perms \<in> set (snd (snd (SetupCerts c E (w0, [])))) \<longrightarrow>
      name \<in> set certs
      \<and> (HasSuffix name ''.key'' \<longrightarrow> perms = ''0600'')
      \<and> (\<not> HasSuffix name ''.key'' \<longrightarrow> perms = ''0644'')"
    unfolding tr using ok [rule_format, of dir name perms] by auto
  have suffixes: "map (\<lambda>name. HasSuffix name ''.key'') certs = [False, True, False, True]"
    by (simp add: certs_def HasSuffix_def)
  from permitted success labels suffixes show ?thesis by (intro conjI)
qed

text \<open>
  The example VM lists what it receives. Every step succeeds, and the VM has received the
  two certificates with \<open>0644\<close> and the two keys with \<open>0600\<close>. A VM that refuses whatever
  is not one of the four files with the permission string its name calls for refuses
  nothing of this run.
\<close>

theorem SetupCerts_key_files_owner_only_witness:
  "SetupCerts example_constants example_provision ([], []) =
     (None,
      ([''/var/lib/localkube/certs/ca.crt 0644'',
        ''/var/lib/localkube/certs/ca.key 0600'',
        ''/var/lib/localkube/certs/apiserver.crt 0644'',
        ''/var/lib/localkube/certs/apiserver.key 0600''],
       [EvGetIP, EvGenerateCerts, EvNewSSHClient,
        EvReadFile ''/home/user/.minikube/ca.crt'',
        EvTransfer ''/var/lib/localkube/certs/'' ''ca.crt'' ''0644'',
        EvReadFile ''/home/user/.minikube/ca.key'',
        EvTransfer ''/var/lib/localkube/certs/'' ''ca.key'' ''0600'',
        EvReadFile ''/home/user/.minikube/apiserver.crt'',
        EvTransfer ''/var/lib/localkube/certs/'' ''apiserver.crt'' ''0644'',
        EvReadFile ''/home/user/.minikube/apiserver.key'',
        EvTransfer ''/var/lib/localkube/certs/'' ''apiserver.key'' ''0600'']))
   \<and> SetupCerts example_constants
       (example_provision\<lparr>Transfer := (\<lambda>data len dir name perms client w.
           if name \<in> set certs \<and> dir = DefaultCertPath example_constants \<and> len = length data
              \<and> perms = (if HasSuffix name ''.key'' then ''0600'' else ''0644'')
           then Transfer example_provision data len dir name perms client w
           else (Some (External ''refused''), w))\<rparr>) ([], []) =
     SetupCerts example_constants example_provision ([], [])
   \<and> HasSuffix ''ca.key'' ''.key'' \<and> \<not> HasSuffix ''ca.crt'' ''.key''"
proof -
  note inst = SetupCerts_key_files_owner_only
    [where c = example_constants and E = example_provision
       and other = "\<lambda>data len dir name perms client w. (Some (External ''refused''), w)"
       and ?s0.0 = "([], [])" and ?w0.0 = "[]" and ipStr = "''10.0.0.5''" and ?w1.0 = "[]"
       and ?w2.0 = "[]" and client = "''ssh''" and ?w3.0 = "[]"
       and ?d1.0 = "''PEM''" and ?w4.0 = "[]"
       and ?w5.0 = "[''/var/lib/localkube/certs/ca.crt 0644'']"
       and ?d2.0 = "''PEM''" and ?w6.0 = "[''/var/lib/localkube/certs/ca.crt 0644'']"
       and ?w7.0 = "[''/var/lib/localkube/certs/ca.crt 0644'',
                     ''/var/lib/localkube/certs/ca.key 0600'']"
       and ?d3.0 = "''PEM''"
       and ?w8.0 = "[''/var/lib/localkube/certs/ca.crt 0644'',
                     ''/var/lib/localkube/certs/ca.key 0600'']"
       and ?w9.0 = "[''/var/lib/localkube/certs/ca.crt 0644'',
                     ''/var/lib/localkube/certs/ca.key 0600'',
                     ''/var/lib/localkube/certs/apiserver.crt 0644'']"
       and ?d4.0 = "''PEM''"
       and ?w10.0 = "[''/var/lib/localkube/certs/ca.crt 0644'',
                      ''/var/lib/localkube/certs/ca.key 0600'',
                      ''/var/lib/localkube/certs/apiserver.crt 0644'']"
       and ?w11.0 = "[''/var/lib/localkube/certs/ca.crt 0644'',
                      ''/var/lib/localkube/certs/ca.key 0600'',
                      ''/var/lib/localkube/certs/apiserver.crt 0644'',
                      ''/var/lib/localkube/certs/apiserver.key 0600'']"
       and dir = "''/var/lib/localkube/certs/''" and name = "''ca.key''" and perms = "''0600''"]
  note permitted = inst [THEN conjunct1]
  note success = inst [THEN conjunct2, THEN conjunct1]
  have steps: "GetIP example_provision [] = (Inr ''10.0.0.5'', [])"
    "NewSSHClient example_provision [] = (Inr ''ssh'', [])"
    "GenerateCerts example_provision a b p q i [] = (None, [])"
    "ReadFile example_provision path w = (Inr ''PEM'', w)"
    "Transfer example_provision data len dir name perms client w =
       (None, w @ [dir @ name @ '' '' @ perms])"
    for a b p q i path w data len dir name perms client
    by (simp_all add: example_provision_def)
  have run: "SetupCerts example_constants example_provision ([], []) =
     (None,
      ([''/var/lib/localkube/certs/ca.crt 0644'',
        ''/var/lib/localkube/certs/ca.key 0600'',
        ''/var/lib/localkube/certs/apiserver.crt 0644'',
        ''/var/lib/localkube/certs/apiserver.key 0600''],
       [EvGetIP, EvGenerateCerts, EvNewSSHClient,
        EvReadFile ''/home/user/.minikube/ca.crt'',
        EvTransfer ''/var/lib/localkube/certs/'' ''ca.crt'' ''0644'',
        EvReadFile ''/home/user/.minikube/ca.key'',
        EvTransfer ''/var/lib/localkube/certs/'' ''ca.key'' ''0600'',
        EvReadFile ''/home/user/.minikube/apiserver.crt'',
        EvTransfer ''/var/lib/localkube/certs/'' ''apiserver.crt'' ''0644'',
        EvReadFile ''/home/user/.minikube/apiserver.key'',
        EvTransfer ''/var/lib/localkube/certs/'' ''apiserver.key'' ''0600'']))"
  proof -
    have paths: "Join example_provision (GetMinipath example_constants) ''ca.crt'' =
                   ''/home/user/.minikube/ca.crt''"
      "Join example_provision (GetMinipath example_constants) ''ca.key'' =
                   ''/home/user/.minikube/ca.key''"
      "Join example_provision (GetMinipath example_constants) ''apiserver.crt'' =
                   ''/home/user/.minikube/apiserver.crt''"
      "Join example_provision (GetMinipath example_constants) ''apiserver.key'' =
                   ''/home/user/.minikube/apiserver.key''"
      "DefaultCertPath example_constants = ''/var/lib/localkube/certs/''"
      by (simp_all add: example_provision_def example_constants_def)
    from success show ?thesis
      unfolding paths by (simp add: steps)
  qed
  have suffix: "HasSuffix ''ca.key'' ''.key'' \<and> \<not> HasSuffix ''ca.crt'' ''.key''"
    by (simp add: HasSuffix_def)
  from run permitted suffix show ?thesis by (intro conjI) simp_all
qed

subsection \<open>Deleting the host\<close>

text \<open>
  C2. Once \<open>DeleteHost\<close> has loaded the host record, it calls the driver's \<open>Remove\<close>
  and then the store's \<open>Remove\<close>, whatever the first returned, and makes no other call.
  Its result is nil when both succeeded and otherwise the aggregate of exactly the errors
  that occurred, in the order they occurred: one error when one removal failed, both when
  both failed.
\<close>

theorem DeleteHost_attempts_both_removals:
  assumes ld: "Load api (MachineName c) w0 = (Inr host, w1)"
    and dr: "Driver_Remove api host w1 = (r1, w2)"
    and rm: "Remove api (MachineName c) w2 = (r2, w3)"
  shows "DeleteHost c api (w0, []) =
           ((case (r1, r2) of
               (None, None) \<Rightarrow> None
             | (Some e1, None) \<Rightarrow> Some (Aggregate [e1])
             | (None, Some e2) \<Rightarrow> Some (Aggregate [e2])
             | (Some e1, Some e2) \<Rightarrow> Some (Aggregate [e1, e2])),
            (w3, [EvLoad (MachineName c), EvDriverRemove host, EvRemove (MachineName c)]))"
  by (simp add: DeleteHost_def call_def ld dr rm
      Collect_def ToError_def split: option.splits)

text \<open>
  The driver removal fails and the record removal succeeds; then both fail.
\<close>

theorem DeleteHost_attempts_both_removals_witness:
  "DeleteHost example_constants example_api (0, []) =
     (Some (Aggregate [External ''machine does not exist'']),
      (1, [EvLoad ''minikube'', EvDriverRemove example_host, EvRemove ''minikube'']))
   \<and> DeleteHost example_constants example_api_remove_fails (0, []) =
     (Some (Aggregate [External ''machine does not exist'', External ''permission denied'']),
      (0, [EvLoad ''minikube'', EvDriverRemove example_host, EvRemove ''minikube'']))"
proof -
  have ld: "Load example_api (MachineName example_constants) 0 = (Inr example_host, 0)"
    by (simp add: example_api_def)
  have dr: "Driver_Remove example_api example_host 0 =
              (Some (External ''machine does not exist''), 0)"
    by (simp add: example_api_def)
  have rm: "Remove example_api (MachineName example_constants) 0 = (None, 1)"
    by (simp add: example_api_def)
  have ld': "Load example_api_remove_fails (MachineName example_constants) 0 = (Inr example_host, 0)"
    by (simp add: example_api_remove_fails_def example_api_def)
  have dr': "Driver_Remove example_api_remove_fails example_host 0 =
              (Some (External ''machine does not exist''), 0)"
    by (simp add: example_api_remove_fails_def example_api_def)
  have rm': "Remove example_api_remove_fails (MachineName example_constants) 0 =
              (Some (External ''permission denied''), 0)"
    by (simp add: example_api_remove_fails_def)
  from DeleteHost_attempts_both_removals [OF ld dr rm]
       DeleteHost_attempts_both_removals [OF ld' dr' rm']
  show ?thesis by (simp add: example_constants_def)
qed

subsection \<open>Node ports of a service\<close>

lemma collectNodePorts_filter:
  "collectNodePorts ports acc = acc @ filter (\<lambda>p. p > 0) (map NodePort ports)"
  by (induction ports arbitrary: acc) auto

lemma getServicePorts_of_service:
  "Get services service = Inr svc \<Longrightarrow>
   getServicePortsFromServiceGetter services service =
     (if filter (\<lambda>p. p > 0) (map NodePort (Ports (Spec svc))) = []
      then Inl (MissingNodePortError svc)
      else Inr (filter (\<lambda>p. p > 0) (map NodePort (Ports (Spec svc)))))"
  by (simp add: getServicePortsFromServiceGetter_def getServiceFromServiceGetter_def
      collectNodePorts_filter)

lemma getServicePorts_of_failure:
  "Get services service = Inl e \<Longrightarrow>
   getServicePortsFromServiceGetter services service =
     Inl (Errorf (''Error getting '' @ service @ '' service: '') e)"
  by (simp add: getServicePortsFromServiceGetter_def getServiceFromServiceGetter_def)

lemma example_get_web: "Get example_getter ''web'' = Inr web_service"
  by (simp add: example_getter_def)

lemma example_get_db: "Get example_getter ''db'' = Inr db_service"
  by (simp add: example_getter_def)

text \<open>
  C3. For a service that the getter returns, the ports resolved are the node ports that
  are strictly greater than zero, in the order of the service spec, and when there is none
  the result is the \<open>MissingNodePortError\<close> of that service, which the type switch
  recognises. A service with node ports 0 and 31000 resolves to the one port 31000, and
  to the one URL rendered for it when the rendering succeeds; a service all of whose node
  ports are 0, or without ports, yields \<open>MissingNodePortError\<close>. The error for a service
  that the getter does not return is not a \<open>MissingNodePortError\<close>.
\<close>

theorem getServicePortsFromServiceGetter_node_ports:
  assumes "Get services service = Inr svc"
  shows "getServicePortsFromServiceGetter services service =
           (if filter (\<lambda>p. p > 0) (map NodePort (Ports (Spec svc))) = []
            then Inl (MissingNodePortError svc)
            else Inr (filter (\<lambda>p. p > 0) (map NodePort (Ports (Spec svc)))))
         \<and> (map NodePort (Ports (Spec svc)) = [0, 31000] \<longrightarrow>
              getServicePortsFromServiceGetter services service = Inr [31000]
              \<and> (Services client namespace = services \<longrightarrow>
                   getServiceURLsWithClient U client ip namespace service (Some t) =
                     (case renderPort U t ip 31000 of Inl err \<Rightarrow> Inl err | Inr url \<Rightarrow> Inr [url])))
         \<and> ((\<forall>port \<in> set (Ports (Spec svc)). NodePort port = 0) \<longrightarrow>
              getServicePortsFromServiceGetter services service = Inl (MissingNodePortError svc)
              \<and> isMissingNodePortError (MissingNodePortError svc))
         \<and> (Get services missing = Inl e \<longrightarrow>
              getServicePortsFromServiceGetter services missing =
                Inl (Errorf (''Error getting '' @ missing @ '' service: '') e)
              \<and> \<not> isMissingNodePortError (Errorf (''Error getting '' @ missing @ '' service: '') e))"
proof -
  note eq = getServicePorts_of_service [OF assms]
  have a: "map NodePort (Ports (Spec svc)) = [0, 31000] \<longrightarrow>
              getServicePortsFromServiceGetter services service = Inr [31000]
              \<and> (Services client namespace = services \<longrightarrow>
                   getServiceURLsWithClient U client ip namespace service (Some t) =
                     (case renderPort U t ip 31000 of Inl err \<Rightarrow> Inl err | Inr url \<Rightarrow> Inr [url]))"
    using eq by (auto simp: getServiceURLsWithClient_def getServicePorts_def split: sum.splits)
  have "(\<forall>port \<in> set (Ports (Spec svc)). NodePort port = 0) \<Longrightarrow>
        filter (\<lambda>p. p > 0) (map NodePort (Ports (Spec svc))) = []"
    by (simp add: filter_empty_conv)
  then have b: "(\<forall>port \<in> set (Ports (Spec svc)). NodePort port = 0) \<longrightarrow>
              getServicePortsFromServiceGetter services service = Inl (MissingNodePortError svc)
              \<and> isMissingNodePortError (MissingNodePortError svc)"
    using eq by simp
  have c: "Get services missing = Inl e \<longrightarrow>
              getServicePortsFromServiceGetter services missing =
                Inl (Errorf (''Error getting '' @ missing @ '' service: '') e)
              \<and> \<not> isMissingNodePortError (Errorf (''Error getting '' @ missing @ '' service: '') e)"
    by (simp add: getServicePorts_of_failure)
  from eq a b c show ?thesis by blast
qed

text \<open>
  The service \<open>web\<close> has node ports 0 and 31000, the service \<open>db\<close> has node port 0
  only, and there is no service \<open>cache\<close>.
\<close>

theorem getServicePortsFromServiceGetter_node_ports_witness:
  "getServicePortsFromServiceGetter example_getter ''web'' = Inr [31000]
   \<and> getServiceURLsWithClient example_url example_client ''10.0.0.5'' ''default'' ''web''
       (Some example_template) = Inr [''http://10.0.0.5:31000'']
   \<and> getServicePortsFromServiceGetter example_getter ''db'' = Inl (MissingNodePortError db_service)
   \<and> getServicePortsFromServiceGetter example_getter ''cache'' =
       Inl (Errorf ''Error getting cache service: '' (External ''not found''))"
proof -
  have ports: "map NodePort (Ports (Spec web_service)) = [0, 31000]"
    by (simp add: web_service_def)
  have zero: "\<forall>port \<in> set (Ports (Spec db_service)). NodePort port = 0"
    by (simp add: db_service_def)
  have getter: "Services example_client ''default'' = example_getter"
    by (simp add: example_client_def)
  have render: "renderPort example_url example_template ''10.0.0.5'' 31000 =
                  Inr ''http://10.0.0.5:31000''"
    by (simp add: renderPort_def example_url_def example_template_def)
  have cache: "Get example_getter ''cache'' = Inl (External ''not found'')"
    by (simp add: example_getter_def)
  from getServicePortsFromServiceGetter_node_ports
         [OF example_get_web, where client = example_client and namespace = "''default''"
            and U = example_url and ip = "''10.0.0.5''" and t = example_template
            and missing = "''cache''" and e = "External ''not found''"]
       getServicePortsFromServiceGetter_node_ports
         [OF example_get_db, where client = example_client and namespace = "''default''"
            and U = example_url and ip = "''10.0.0.5''" and t = example_template
            and missing = "''cache''" and e = "External ''not found''"]
       ports zero getter render cache
  show ?thesis by simp
qed

subsection \<open>Starting a running host\<close>

text \<open>
  C4. When the host record exists, loads, and its driver reports \<open>state.Running\<close> without
  error, \<open>StartHost\<close> makes exactly four calls: \<open>Exists\<close>, \<open>Load\<close>, \<open>GetState\<close> and
  \<open>ConfigureAuth\<close>. It calls neither the driver's \<open>Start\<close> nor the store's \<open>Save\<close>, for
  any host, and the world it leaves is the one those four calls leave: whatever part of
  the world (the persisted record, say) these four calls do not change is unchanged after
  \<open>StartHost\<close>. It returns the loaded host, or the retriable error of \<open>ConfigureAuth\<close>.
\<close>

theorem StartHost_running_no_start_no_save:
  assumes ex: "Exists api (MachineName c) w0 = (Inr True, w1)"
    and ld: "Load api (MachineName c) w1 = (Inr h, w2)"
    and st: "Driver_GetState api h w2 = ((Running api, None), w3)"
    and au: "ConfigureAuth api h w3 = (r, w4)"
  shows "StartHost c api config (w0, []) =
           (Return (case r of
                      None \<Rightarrow> Inr h
                    | Some err \<Rightarrow> Inl (RetriableError (Wrap err ''Error configuring auth on host''))),
            (w4, [EvExists (MachineName c), EvLoad (MachineName c), EvGetState h, EvConfigureAuth h]))
         \<and> EvStart h' \<notin> set (snd (snd (StartHost c api config (w0, []))))
         \<and> EvSave h' \<notin> set (snd (snd (StartHost c api config (w0, []))))
         \<and> (persisted w1 = persisted w0 \<and> persisted w2 = persisted w1
              \<and> persisted w3 = persisted w2 \<and> persisted w4 = persisted w3
              \<longrightarrow> persisted (fst (snd (StartHost c api config (w0, [])))) = persisted w0)"
proof -
  have run: "StartHost c api config (w0, []) =
           (Return (case r of
                      None \<Rightarrow> Inr h
                    | Some err \<Rightarrow> Inl (RetriableError (Wrap err ''Error configuring auth on host''))),
            (w4, [EvExists (MachineName c), EvLoad (MachineName c), EvGetState h, EvConfigureAuth h]))"
    by (simp add: StartHost_def call_def ex ld st au
        split: option.splits)
  show ?thesis unfolding run by simp
qed

text \<open>
  The example store holds a running host; the number of writes stays 0.
\<close>

theorem StartHost_running_no_start_no_save_witness:
  "StartHost example_constants example_api example_config (0, []) =
     (Return (Inr example_host),
      (0, [EvExists ''minikube'', EvLoad ''minikube'', EvGetState example_host,
           EvConfigureAuth example_host]))
   \<and> EvStart example_host \<notin> set (snd (snd (StartHost example_constants example_api example_config (0, []))))
   \<and> EvSave example_host \<notin> set (snd (snd (StartHost example_constants example_api example_config (0, []))))
   \<and> fst (snd (StartHost example_constants example_api example_config (0, []))) = 0"
proof -
  have ex: "Exists example_api (MachineName example_constants) 0 = (Inr True, 0)"
    by (simp add: example_api_def)
  have ld: "Load example_api (MachineName example_constants) 0 = (Inr example_host, 0)"
    by (simp add: example_api_def)
  have st: "Driver_GetState example_api example_host 0 = ((Running example_api, None), 0)"
    by (simp add: example_api_def)
  have au: "ConfigureAuth example_api example_host 0 = (None, 0)"
    by (simp add: example_api_def)
  from StartHost_running_no_start_no_save
         [OF ex ld st au, where config = example_config and h' = example_host
            and persisted = "\<lambda>w. w"]
  show ?thesis by (simp add: example_constants_def)
qed

subsection \<open>Listing the services of a namespace\<close>

lemma renderPorts_Inr:
  "renderPorts U t ip ports acc = Inr urls \<Longrightarrow>
   \<exists>new. urls = acc @ new \<and> list_all2 (\<lambda>port url. renderPort U t ip port = Inr url) ports new"
proof (induction ports arbitrary: acc)
  case Nil
  then show ?case by simp
next
  case (Cons port ports)
  from Cons.prems obtain url where
    r: "renderPort U t ip port = Inr url" and
    rest: "renderPorts U t ip ports (acc @ [url]) = Inr urls"
    by (auto split: sum.splits)
  from Cons.IH [OF rest] obtain new where
    "urls = (acc @ [url]) @ new" and
    "list_all2 (\<lambda>port url. renderPort U t ip port = Inr url) ports new"
    by blast
  with r show ?case by (intro exI [of _ "url # new"]) simp
qed

lemma collectServiceURLs_all:
  assumes "\<forall>svc \<in> set svcs.
             case getServiceURLsWithClient U client ip (Namespace svc) (Name svc) t of
               Inl err \<Rightarrow> isMissingNodePortError err | Inr urls \<Rightarrow> True"
  shows "collectServiceURLs U client ip t svcs acc =
           Inr (acc @ map (\<lambda>svc. ServiceURL (Namespace svc) (Name svc)
                  (case getServiceURLsWithClient U client ip (Namespace svc) (Name svc) t of
                     Inl err \<Rightarrow> [] | Inr urls \<Rightarrow> urls)) svcs)"
  using assms by (induction svcs arbitrary: acc) (auto split: sum.splits)

lemma collectServiceURLs_abort:
  assumes "\<forall>svc \<in> set before.
             case getServiceURLsWithClient U client ip (Namespace svc) (Name svc) t of
               Inl err \<Rightarrow> isMissingNodePortError err | Inr urls \<Rightarrow> True"
    and "getServiceURLsWithClient U client ip (Namespace bad) (Name bad) t = Inl e"
    and "\<not> isMissingNodePortError e"
  shows "collectServiceURLs U client ip t (before @ bad # after) acc = Inl e"
  using assms by (induction before arbitrary: acc) (auto split: sum.splits)

lemma example_resolve_web:
  "getServiceURLsWithClient example_url example_client ''10.0.0.5'' ''default'' ''web''
     (Some example_template) = Inr [''http://10.0.0.5:31000'']"
  by (simp add: getServiceURLsWithClient_def getServicePorts_def
      getServicePortsFromServiceGetter_def getServiceFromServiceGetter_def renderPort_def
      example_url_def example_client_def example_getter_def example_template_def web_service_def)

lemma example_resolve_db:
  "getServiceURLsWithClient example_url example_client ''10.0.0.5'' ''default'' ''db''
     (Some example_template) = Inl (MissingNodePortError db_service)"
  by (simp add: getServiceURLsWithClient_def getServicePorts_def
      getServicePortsFromServiceGetter_def getServiceFromServiceGetter_def
      example_client_def example_getter_def db_service_def)

lemma example_resolve_nil_template:
  "getServiceURLsWithClient example_url example_client ''10.0.0.5'' ''default'' ''web'' None =
     Inl (New ''Error, attempted to generate service url with nil --format template'')"
  by (simp add: getServiceURLsWithClient_def)

lemma example_load:
  "CheckIfApiExistsAndLoad example_constants example_api (0, []) =
     (Inr example_host, (0, [EvExists ''minikube'', EvLoad ''minikube'']))"
  by (simp add: CheckIfApiExistsAndLoad_def call_def example_constants_def example_api_def)

lemma example_ip:
  "call (EvDriverGetIP example_host) (Driver_GetIP example_api example_host)
     (0, [EvExists ''minikube'', EvLoad ''minikube'']) =
     (Inr ''10.0.0.5'', (0, [EvExists ''minikube'', EvLoad ''minikube'', EvDriverGetIP example_host]))"
  by (simp add: call_def example_api_def)

lemma example_kube_client:
  "GetKubernetesClient example_kube
     (0, [EvExists ''minikube'', EvLoad ''minikube'', EvDriverGetIP example_host]) =
     (Inr example_client,
      (0, [EvExists ''minikube'', EvLoad ''minikube'', EvDriverGetIP example_host,
           EvClientConfig, EvNewForConfig]))"
  by (simp add: GetKubernetesClient_def call_def example_kube_def)

lemma example_list:
  "List (Services example_client ''default'') = Inr [web_service, db_service]"
  by (simp add: example_client_def example_getter_def)

text \<open>
  C5. Once the host is loaded, its IP is known, the client is built and the services
  of the namespace are listed, \<open>GetServiceURLs\<close> resolves every listed service with
  \<open>getServiceURLsWithClient\<close>, in the order listed. If every resolution either succeeds
  or fails with \<open>MissingNodePortError\<close>, the result has one entry per listed service, with
  the resolved URLs, or with no URL where the node port is missing. In particular two
  services, the first resolving to URLs and the second without node port, give two
  entries, the second with the empty list. The first resolution that fails with any other
  error ends the listing with that error.
\<close>

theorem GetServiceURLs_missing_node_port_is_not_fatal:
  assumes host: "CheckIfApiExistsAndLoad c api s0 = (Inr host, s1)"
    and ip: "call (EvDriverGetIP host) (Driver_GetIP api host) s1 = (Inr ip, s2)"
    and client: "GetKubernetesClient K s2 = (Inr client, s3)"
    and list: "List (Services client namespace) = Inr svcs"
  shows "((\<forall>svc \<in> set svcs.
             case getServiceURLsWithClient U client ip (Namespace svc) (Name svc) t of
               Inl err \<Rightarrow> isMissingNodePortError err | Inr urls \<Rightarrow> True) \<longrightarrow>
          GetServiceURLs c api K U namespace t s0 =
            (Inr (map (\<lambda>svc. ServiceURL (Namespace svc) (Name svc)
                    (case getServiceURLsWithClient U client ip (Namespace svc) (Name svc) t of
                       Inl err \<Rightarrow> [] | Inr urls \<Rightarrow> urls)) svcs), s3))
         \<and> (svcs = [a, b]
              \<and> getServiceURLsWithClient U client ip (Namespace a) (Name a) t = Inr urls
              \<and> getServiceURLsWithClient U client ip (Namespace b) (Name b) t = Inl (MissingNodePortError b')
              \<longrightarrow> GetServiceURLs c api K U namespace t s0 =
                    (Inr [ServiceURL (Namespace a) (Name a) urls, ServiceURL (Namespace b) (Name b) []], s3))
         \<and> (svcs = before @ bad # after
              \<and> (\<forall>svc \<in> set before.
                    case getServiceURLsWithClient U client ip (Namespace svc) (Name svc) t of
                      Inl err \<Rightarrow> isMissingNodePortError err | Inr urls \<Rightarrow> True)
              \<and> getServiceURLsWithClient U client ip (Namespace bad) (Name bad) t = Inl e
              \<and> \<not> isMissingNodePortError e
              \<longrightarrow> GetServiceURLs c api K U namespace t s0 = (Inl e, s3))"
proof -
  have run: "GetServiceURLs c api K U namespace t s0 = (collectServiceURLs U client ip t svcs [], s3)"
    by (simp add: GetServiceURLs_def host ip client list)
  have all: "(\<forall>svc \<in> set svcs.
             case getServiceURLsWithClient U client ip (Namespace svc) (Name svc) t of
               Inl err \<Rightarrow> isMissingNodePortError err | Inr urls \<Rightarrow> True) \<longrightarrow>
          GetServiceURLs c api K U namespace t s0 =
            (Inr (map (\<lambda>svc. ServiceURL (Namespace svc) (Name svc)
                    (case getServiceURLsWithClient U client ip (Namespace svc) (Name svc) t of
                       Inl err \<Rightarrow> [] | Inr urls \<Rightarrow> urls)) svcs), s3)"
    by (simp add: run collectServiceURLs_all)
  have two: "svcs = [a, b]
              \<and> getServiceURLsWithClient U client ip (Namespace a) (Name a) t = Inr urls
              \<and> getServiceURLsWithClient U client ip (Namespace b) (Name b) t = Inl (MissingNodePortError b')
              \<longrightarrow> GetServiceURLs c api K U namespace t s0 =
                    (Inr [ServiceURL (Namespace a) (Name a) urls, ServiceURL (Namespace b) (Name b) []], s3)"
    by (simp add: run)
  have abort: "svcs = before @ bad # after
              \<and> (\<forall>svc \<in> set before.
                    case getServiceURLsWithClient U client ip (Namespace svc) (Name svc) t of
                      Inl err \<Rightarrow> isMissingNodePortError err | Inr urls \<Rightarrow> True)
              \<and> getServiceURLsWithClient U client ip (Namespace bad) (Name bad) t = Inl e
              \<and> \<not> isMissingNodePortError e
              \<longrightarrow> GetServiceURLs c api K U namespace t s0 = (Inl e, s3)"
    by (simp add: run collectServiceURLs_abort)
  from all two abort show ?thesis by blast
qed

text \<open>
  The example namespace lists \<open>web\<close> and \<open>db\<close>; with the nil template the first
  resolution fails with an error that is not \<open>MissingNodePortError\<close>.
\<close>

theorem GetServiceURLs_missing_node_port_is_not_fatal_witness:
  "GetServiceURLs example_constants example_api example_kube example_url ''default''
     (Some example_template) (0, []) =
     (Inr [ServiceURL ''default'' ''web'' [''http://10.0.0.5:31000''],
           ServiceURL ''default'' ''db'' []],
      (0, [EvExists ''minikube'', EvLoad ''minikube'', EvDriverGetIP example_host,
           EvClientConfig, EvNewForConfig]))
   \<and> GetServiceURLs example_constants example_api example_kube example_url ''default''
       None (0, []) =
     (Inl (New ''Error, attempted to generate service url with nil --format template''),
      (0, [EvExists ''minikube'', EvLoad ''minikube'', EvDriverGetIP example_host,
           EvClientConfig, EvNewForConfig]))"
proof -
  note inst = GetServiceURLs_missing_node_port_is_not_fatal
               [OF example_load example_ip example_kube_client example_list]
  have web: "Namespace web_service = ''default''" "Name web_service = ''web''"
    by (simp_all add: web_service_def)
  have db: "Namespace db_service = ''default''" "Name db_service = ''db''"
    by (simp_all add: db_service_def)
  have ok: "\<forall>svc \<in> set [web_service, db_service].
             case getServiceURLsWithClient example_url example_client ''10.0.0.5''
                    (Namespace svc) (Name svc) (Some example_template) of
               Inl err \<Rightarrow> isMissingNodePortError err | Inr urls \<Rightarrow> True"
    by (simp add: web db example_resolve_web example_resolve_db)
  from inst [of example_url "Some example_template" web_service db_service
              "[''http://10.0.0.5:31000'']" db_service "[]" web_service "[db_service]"
              "New ''Error, attempted to generate service url with nil --format template''"]
  have first: "GetServiceURLs example_constants example_api example_kube example_url ''default''
     (Some example_template) (0, []) =
     (Inr [ServiceURL ''default'' ''web'' [''http://10.0.0.5:31000''],
           ServiceURL ''default'' ''db'' []],
      (0, [EvExists ''minikube'', EvLoad ''minikube'', EvDriverGetIP example_host,
           EvClientConfig, EvNewForConfig]))"
    using ok by (simp add: web db example_resolve_web example_resolve_db)
  from inst [of example_url None web_service db_service
              "[]" db_service "[]" web_service "[db_service]"
              "New ''Error, attempted to generate service url with nil --format template''"]
  have second: "GetServiceURLs example_constants example_api example_kube example_url ''default''
       None (0, []) =
     (Inl (New ''Error, attempted to generate service url with nil --format template''),
      (0, [EvExists ''minikube'', EvLoad ''minikube'', EvDriverGetIP example_host,
           EvClientConfig, EvNewForConfig]))"
    by (simp add: web example_resolve_nil_template)
  from first second show ?thesis by blast
qed

subsection \<open>Endpoint readiness\<close>

lemma checkSubsets_ready:
  "fst (checkSubsets subsets) = None \<longleftrightarrow> (\<forall>sub \<in> set subsets. Addresses sub \<noteq> [])"
  by (induction subsets) auto

lemma checkSubsets_error:
  "fst (checkSubsets subsets) = None \<or>
   checkSubsets subsets =
     (Some (RetriableError (New ''No endpoints for service are ready yet'')), [notReadyMsg])"
  by (induction subsets) auto

text \<open>
  C6, as the code has it. \<open>checkEndpointReady\<close> returns nil exactly when the endpoints
  object has at least one subset and every subset has at least one address. With zero
  subsets it returns a retriable error, with one subset holding one address it returns
  nil, and every error it returns is a \<open>RetriableError\<close>.
\<close>

theorem checkEndpointReady_every_subset:
  "(fst (checkEndpointReady endpoint) = None \<longleftrightarrow>
      Subsets endpoint \<noteq> [] \<and> (\<forall>sub \<in> set (Subsets endpoint). Addresses sub \<noteq> []))
   \<and> checkEndpointReady \<lparr>Subsets = []\<rparr> =
       (Some (RetriableError (New ''Endpoint for service is not ready yet'')), [notReadyMsg])
   \<and> checkEndpointReady \<lparr>Subsets = [\<lparr>Addresses = [address]\<rparr>]\<rparr> = (None, [])
   \<and> (\<exists>e. fst (checkEndpointReady endpoint) = None
          \<or> fst (checkEndpointReady endpoint) = Some (RetriableError (New e)))"
proof -
  have "fst (checkEndpointReady endpoint) = None \<longleftrightarrow>
      Subsets endpoint \<noteq> [] \<and> (\<forall>sub \<in> set (Subsets endpoint). Addresses sub \<noteq> [])"
    by (simp add: checkEndpointReady_def checkSubsets_ready)
  moreover have "checkEndpointReady \<lparr>Subsets = []\<rparr> =
       (Some (RetriableError (New ''Endpoint for service is not ready yet'')), [notReadyMsg])"
    by (simp add: checkEndpointReady_def)
  moreover have "checkEndpointReady \<lparr>Subsets = [\<lparr>Addresses = [address]\<rparr>]\<rparr> = (None, [])"
    by (simp add: checkEndpointReady_def)
  moreover have "\<exists>e. fst (checkEndpointReady endpoint) = None
          \<or> fst (checkEndpointReady endpoint) = Some (RetriableError (New e))"
    using checkSubsets_error [of "Subsets endpoint"]
    by (auto simp: checkEndpointReady_def)
  ultimately show ?thesis by blast
qed

text \<open>
  Two subsets with addresses are ready; a subset with an address followed by one
  without is not.
\<close>

theorem checkEndpointReady_every_subset_witness:
  "fst (checkEndpointReady \<lparr>Subsets = [\<lparr>Addresses = [''10.0.0.5'']\<rparr>, \<lparr>Addresses = [''10.0.0.6'', ''10.0.0.7'']\<rparr>]\<rparr>) = None
   \<and> fst (checkEndpointReady \<lparr>Subsets = [\<lparr>Addresses = [''10.0.0.5'']\<rparr>, \<lparr>Addresses = []\<rparr>]\<rparr>) \<noteq> None"
  using checkEndpointReady_every_subset
          [of "\<lparr>Subsets = [\<lparr>Addresses = [''10.0.0.5'']\<rparr>, \<lparr>Addresses = [''10.0.0.6'', ''10.0.0.7'']\<rparr>]\<rparr>"]
        checkEndpointReady_every_subset
          [of "\<lparr>Subsets = [\<lparr>Addresses = [''10.0.0.5'']\<rparr>, \<lparr>Addresses = []\<rparr>]\<rparr>"]
  by simp

text \<open>
  C6, as the claim states it, fails: these endpoints have a subset, and that subset has
  an address, yet they are reported not ready, because the second subset has none.
\<close>

theorem checkEndpointReady_some_subset_counterexample:
  "Subsets \<lparr>Subsets = [\<lparr>Addresses = [''10.0.0.5'']\<rparr>, \<lparr>Addresses = []\<rparr>]\<rparr> \<noteq> []
   \<and> Addresses (hd (Subsets \<lparr>Subsets = [\<lparr>Addresses = [''10.0.0.5'']\<rparr>, \<lparr>Addresses = []\<rparr>]\<rparr>)) \<noteq> []
   \<and> checkEndpointReady \<lparr>Subsets = [\<lparr>Addresses = [''10.0.0.5'']\<rparr>, \<lparr>Addresses = []\<rparr>]\<rparr> =
       (Some (RetriableError (New ''No endpoints for service are ready yet'')), [notReadyMsg])"
  by (simp add: checkEndpointReady_def)

subsection \<open>Unsupported drivers\<close>

lemma selectDriver_unsupported:
  "VMDriver config \<notin> {''virtualbox'', ''vmwarefusion'', ''kvm'', ''xhyve'', ''hyperv''} \<Longrightarrow>
   selectDriver c api config = None"
  by (simp add: selectDriver_def)

text \<open>
  C7. For a driver tag outside virtualbox, vmwarefusion, kvm, xhyve and hyperv,
  \<open>createHost\<close> makes one call only, the caching of the ISO, which precedes the driver
  switch: it never reaches \<open>NewHost\<close>, \<open>Create\<close> or \<open>Save\<close>. When the caching returns
  no error, so that the driver switch is reached, the process exits there with the
  diagnostic \<open>Unsupported driver: <tag>\<close>; when the caching fails, \<open>createHost\<close> returns
  that error, wrapped.
\<close>

theorem createHost_unsupported_driver_exits:
  assumes tag: "VMDriver config \<notin> {''virtualbox'', ''vmwarefusion'', ''kvm'', ''xhyve'', ''hyperv''}"
    and iso: "CacheMinikubeISOFromURL api (MinikubeISO config) w0 = (cached, w1)"
  shows "createHost c api config (w0, []) =
           ((case cached of
               None \<Rightarrow> ProcessExit (''Unsupported driver: '' @ VMDriver config @ [CHR 0x0A])
             | Some err \<Rightarrow> Return (Inl (Wrap err ''Error attempting to cache minikube ISO from URL''))),
            (w1, [EvCacheMinikubeISOFromURL (MinikubeISO config)]))
         \<and> EvNewHost name data \<notin> set (snd (snd (createHost c api config (w0, []))))
         \<and> EvCreate h \<notin> set (snd (snd (createHost c api config (w0, []))))
         \<and> EvSave h \<notin> set (snd (snd (createHost c api config (w0, []))))"
proof -
  have run: "createHost c api config (w0, []) =
           ((case cached of
               None \<Rightarrow> ProcessExit (''Unsupported driver: '' @ VMDriver config @ [CHR 0x0A])
             | Some err \<Rightarrow> Return (Inl (Wrap err ''Error attempting to cache minikube ISO from URL''))),
            (w1, [EvCacheMinikubeISOFromURL (MinikubeISO config)]))"
    by (simp add: createHost_def call_def iso selectDriver_unsupported [OF tag]
        split: option.splits)
  show ?thesis unfolding run by simp
qed

text \<open>
  The tag \<open>docker\<close>, with an ISO that is cached and with one that is not.
\<close>

theorem createHost_unsupported_driver_exits_witness:
  "createHost example_constants example_api example_config (0, []) =
     (ProcessExit (''Unsupported driver: docker'' @ [CHR 0x0A]),
      (0, [EvCacheMinikubeISOFromURL ''https://storage.googleapis.com/minikube/minikube.iso'']))
   \<and> createHost example_constants example_api_no_iso example_config (0, []) =
     (Return (Inl (Wrap (External ''connection refused'')
                ''Error attempting to cache minikube ISO from URL'')),
      (0, [EvCacheMinikubeISOFromURL ''https://storage.googleapis.com/minikube/minikube.iso'']))"
proof -
  have tag: "VMDriver example_config \<notin> {''virtualbox'', ''vmwarefusion'', ''kvm'', ''xhyve'', ''hyperv''}"
    by (simp add: example_config_def)
  have iso: "CacheMinikubeISOFromURL example_api (MinikubeISO example_config) 0 = (None, 0)"
    by (simp add: example_api_def)
  have iso': "CacheMinikubeISOFromURL example_api_no_iso (MinikubeISO example_config) 0 =
                (Some (External ''connection refused''), 0)"
    by (simp add: example_api_no_iso_def)
  from createHost_unsupported_driver_exits [OF tag iso, where c = example_constants]
       createHost_unsupported_driver_exits [OF tag iso', where c = example_constants]
  show ?thesis by (simp add: example_config_def)
qed

subsection \<open>Source of the localkube binary\<close>

lemma mergeAddons_trace:
  "\<exists>n. snd (snd (mergeAddons addons acc (w, tr))) = tr @ replicate n EvIsEnabled"
proof (induction addons arbitrary: acc w tr)
  case Nil
  show ?case by simp
next
  case (Cons addonBundle rest)
  obtain isEnabled err w1 where en: "IsEnabled addonBundle w = ((isEnabled, err), w1)"
    by (metis prod.exhaust)
  show ?case
  proof (cases err)
    case (Some e)
    then have "snd (snd (mergeAddons (addonBundle # rest) acc (w, tr))) = tr @ replicate 1 EvIsEnabled"
      by (simp add: call_def en)
    then show ?thesis by blast
  next
    case None
    obtain acc' where
      step: "mergeAddons (addonBundle # rest) acc (w, tr) = mergeAddons rest acc' (w1, tr @ [EvIsEnabled])"
      using None by (cases isEnabled) (simp_all add: call_def en)
    from Cons.IH [of acc' w1 "tr @ [EvIsEnabled]"] obtain n where
      "snd (snd (mergeAddons rest acc' (w1, tr @ [EvIsEnabled]))) = (tr @ [EvIsEnabled]) @ replicate n EvIsEnabled"
      by blast
    then have "snd (snd (mergeAddons (addonBundle # rest) acc (w, tr))) = tr @ replicate (Suc n) EvIsEnabled"
      unfolding step by simp
    then show ?thesis by blast
  qed
qed

lemma transferFiles_trace:
  "\<exists>sent. snd (snd (transferFiles E client files (w, tr))) = tr @ map EvTransferFile sent"
proof (induction files arbitrary: w tr)
  case Nil
  have "snd (snd (transferFiles E client [] (w, tr))) = tr @ map EvTransferFile []" by simp
  then show ?case by blast
next
  case (Cons copyableFile rest)
  obtain r w1 where tf: "TransferFile E copyableFile client w = (r, w1)"
    by (metis prod.exhaust)
  show ?case
  proof (cases r)
    case (Some e)
    then have "snd (snd (transferFiles E client (copyableFile # rest) (w, tr))) =
                 tr @ map EvTransferFile [copyableFile]"
      by (simp add: call_def tf)
    then show ?thesis by blast
  next
    case None
    then have step: "transferFiles E client (copyableFile # rest) (w, tr) =
                       transferFiles E client rest (w1, tr @ [EvTransferFile copyableFile])"
      by (simp add: call_def tf)
    from Cons.IH [of w1 "tr @ [EvTransferFile copyableFile]"] obtain sent where
      "snd (snd (transferFiles E client rest (w1, tr @ [EvTransferFile copyableFile]))) =
         (tr @ [EvTransferFile copyableFile]) @ map EvTransferFile sent"
      by blast
    then have "snd (snd (transferFiles E client (copyableFile # rest) (w, tr))) =
                 tr @ map EvTransferFile (copyableFile # sent)"
      unfolding step by simp
    then show ?thesis by blast
  qed
qed

lemma updateLocalkube_trace:
  "snd (snd (updateLocalkube c E config client (w, tr))) =
     tr @ [if localkubeURIWasSpecified c config
           then EvUpdateLocalkubeFromURI else EvUpdateLocalkubeFromAsset]"
  by (simp add: updateLocalkube_def call_def split: prod.splits option.splits)

lemma UpdateCluster_trace:
  assumes ssh: "NewSSHClient E w0 = (Inr client, w1)"
  shows "\<exists>added n sent.
           snd (snd (UpdateCluster c E config (w0, []))) =
             [EvNewSSHClient,
              if localkubeURIWasSpecified c config
              then EvUpdateLocalkubeFromURI else EvUpdateLocalkubeFromAsset]
             @ added @ replicate n EvIsEnabled @ map EvTransferFile sent
           \<and> set added \<subseteq> {EvAddMinikubeAddonsDirToAssets}"
proof -
  let ?ev = "if localkubeURIWasSpecified c config
             then EvUpdateLocalkubeFromURI else EvUpdateLocalkubeFromAsset"
  obtain r w2 tr2 where ul: "updateLocalkube c E config client (w1, [EvNewSSHClient]) = (r, (w2, tr2))"
    by (metis prod.exhaust)
  from updateLocalkube_trace [of c E config client w1 "[EvNewSSHClient]"] ul
  have tr2: "tr2 = [EvNewSSHClient, ?ev]" by simp
  show ?thesis
  proof (cases r)
    case (Some e)
    then have "snd (snd (UpdateCluster c E config (w0, []))) =
                 [EvNewSSHClient, ?ev] @ [] @ replicate 0 EvIsEnabled @ map EvTransferFile []"
      by (simp add: UpdateCluster_def call_def ssh ul tr2)
    then show ?thesis by (intro exI [of _ "[]"] exI [of _ 0]) simp
  next
    case None
    obtain fileAssets w3 where ad: "AddMinikubeAddonsDirToAssets E [] w2 = (fileAssets, w3)"
      by (metis prod.exhaust)
    let ?tr3 = "[EvNewSSHClient, ?ev, EvAddMinikubeAddonsDirToAssets]"
    obtain m w4 tr4 where ma: "mergeAddons (Addons E) [] (w3, ?tr3) = (m, (w4, tr4))"
      by (metis prod.exhaust)
    from mergeAddons_trace [of "Addons E" "[]" w3 ?tr3] ma obtain n where
      tr4: "tr4 = ?tr3 @ replicate n EvIsEnabled" by auto
    show ?thesis
    proof (cases m)
      case (Inl e)
      then have "snd (snd (UpdateCluster c E config (w0, []))) =
                 [EvNewSSHClient, ?ev] @ [EvAddMinikubeAddonsDirToAssets] @ replicate n EvIsEnabled
                   @ map EvTransferFile []"
        using None by (simp add: UpdateCluster_def call_def ssh ul tr2 ad ma tr4)
      then show ?thesis
        by (intro exI [of _ "[EvAddMinikubeAddonsDirToAssets]"] exI [of _ n] exI [of _ "[]"]) simp
    next
      case (Inr copyableFiles)
      from transferFiles_trace [of E client "copyableFiles @ fileAssets" w4 tr4] obtain sent where
        "snd (snd (transferFiles E client (copyableFiles @ fileAssets) (w4, tr4))) =
           tr4 @ map EvTransferFile sent" by blast
      then have "snd (snd (UpdateCluster c E config (w0, []))) =
                 [EvNewSSHClient, ?ev] @ [EvAddMinikubeAddonsDirToAssets] @ replicate n EvIsEnabled
                   @ map EvTransferFile sent"
        using None Inr by (simp add: UpdateCluster_def call_def ssh ul tr2 ad ma tr4)
      then show ?thesis
        by (intro exI [of _ "[EvAddMinikubeAddonsDirToAssets]"] exI [of _ n] exI [of _ sent]) simp
    qed
  qed
qed

lemma transferFiles_without_asset_updater:
  "transferFiles (E\<lparr>updateLocalkubeFromAsset := other\<rparr>) client files s =
   transferFiles E client files s"
  by (induction files arbitrary: s) (simp_all add: call_def split: prod.splits option.splits)

lemma transferFiles_without_uri_updater:
  "transferFiles (E\<lparr>updateLocalkubeFromURI := other\<rparr>) client files s =
   transferFiles E client files s"
  by (induction files arbitrary: s) (simp_all add: call_def split: prod.splits option.splits)

text \<open>
  C8. Once \<open>UpdateCluster\<close> has its SSH client, what it pushes as localkube is decided by
  comparing the configured Kubernetes version with the default version, as strings.
  If they differ, it runs the updater from the URI, on the configuration and the client,
  in the world the client was made in: an error of that updater is the result, wrapped,
  and nothing more is done; otherwise the addons and assets are transferred in the world
  that updater left. The updater from the bundled asset is not run: replacing it by any
  other function changes neither result, world nor log. If the versions are equal,
  also when the user gave the version, it is the other way round: the updater from the
  asset runs, and the updater from the URI could be replaced by any other function.
\<close>

theorem UpdateCluster_localkube_from_uri_iff_not_default:
  assumes ssh: "NewSSHClient E w0 = (Inr client, w1)"
  shows "(KubernetesVersion config \<noteq> DefaultKubernetesVersion c \<longrightarrow>
            UpdateCluster c E config (w0, []) =
              (case updateLocalkubeFromURI E config client w1 of
                 (Some err, w2) \<Rightarrow>
                   (Some (Wrap err ''Error updating localkube from uri''),
                    (w2, [EvNewSSHClient, EvUpdateLocalkubeFromURI]))
               | (None, w2) \<Rightarrow>
                   (case AddMinikubeAddonsDirToAssets E [] w2 of
                      (fileAssets, w3) \<Rightarrow>
                        (case mergeAddons (Addons E) []
                                (w3, [EvNewSSHClient, EvUpdateLocalkubeFromURI,
                                      EvAddMinikubeAddonsDirToAssets]) of
                           (Inl err, s4) \<Rightarrow> (Some err, s4)
                         | (Inr copyableFiles, s4) \<Rightarrow>
                             transferFiles E client (copyableFiles @ fileAssets) s4)))
            \<and> UpdateCluster c (E\<lparr>updateLocalkubeFromAsset := other_asset\<rparr>) config (w0, []) =
                UpdateCluster c E config (w0, []))
         \<and> (KubernetesVersion config = DefaultKubernetesVersion c \<longrightarrow>
            UpdateCluster c E config (w0, []) =
              (case updateLocalkubeFromAsset E client w1 of
                 (Some err, w2) \<Rightarrow>
                   (Some (Wrap err ''Error updating localkube from asset''),
                    (w2, [EvNewSSHClient, EvUpdateLocalkubeFromAsset]))
               | (None, w2) \<Rightarrow>
                   (case AddMinikubeAddonsDirToAssets E [] w2 of
                      (fileAssets, w3) \<Rightarrow>
                        (case mergeAddons (Addons E) []
                                (w3, [EvNewSSHClient, EvUpdateLocalkubeFromAsset,
                                      EvAddMinikubeAddonsDirToAssets]) of
                           (Inl err, s4) \<Rightarrow> (Some err, s4)
                         | (Inr copyableFiles, s4) \<Rightarrow>
                             transferFiles E client (copyableFiles @ fileAssets) s4)))
            \<and> UpdateCluster c (E\<lparr>updateLocalkubeFromURI := other_uri\<rparr>) config (w0, []) =
                UpdateCluster c E config (w0, []))
         \<and> (EvUpdateLocalkubeFromURI \<in> set (snd (snd (UpdateCluster c E config (w0, [])))) \<longleftrightarrow>
              KubernetesVersion config \<noteq> DefaultKubernetesVersion c)
         \<and> (EvUpdateLocalkubeFromAsset \<in> set (snd (snd (UpdateCluster c E config (w0, [])))) \<longleftrightarrow>
              KubernetesVersion config = DefaultKubernetesVersion c)"
proof -
  have uri: "UpdateCluster c E config (w0, []) =
              (case updateLocalkubeFromURI E config client w1 of
                 (Some err, w2) \<Rightarrow>
                   (Some (Wrap err ''Error updating localkube from uri''),
                    (w2, [EvNewSSHClient, EvUpdateLocalkubeFromURI]))
               | (None, w2) \<Rightarrow>
                   (case AddMinikubeAddonsDirToAssets E [] w2 of
                      (fileAssets, w3) \<Rightarrow>
                        (case mergeAddons (Addons E) []
                                (w3, [EvNewSSHClient, EvUpdateLocalkubeFromURI,
                                      EvAddMinikubeAddonsDirToAssets]) of
                           (Inl err, s4) \<Rightarrow> (Some err, s4)
                         | (Inr copyableFiles, s4) \<Rightarrow>
                             transferFiles E client (copyableFiles @ fileAssets) s4)))"
    if version: "KubernetesVersion config \<noteq> DefaultKubernetesVersion c"
  proof -
    obtain r w2 where u: "updateLocalkubeFromURI E config client w1 = (r, w2)"
      by (cases "updateLocalkubeFromURI E config client w1") simp
    show ?thesis
    proof (cases r)
      case (Some err)
      with u version show ?thesis
        by (simp add: UpdateCluster_def updateLocalkube_def localkubeURIWasSpecified_def
            call_def ssh)
    next
      case None
      obtain fileAssets w3 where "AddMinikubeAddonsDirToAssets E [] w2 = (fileAssets, w3)"
        by (cases "AddMinikubeAddonsDirToAssets E [] w2") simp
      with u None version show ?thesis
        by (simp add: UpdateCluster_def updateLocalkube_def localkubeURIWasSpecified_def
            call_def ssh)
    qed
  qed
  have no_asset: "UpdateCluster c (E\<lparr>updateLocalkubeFromAsset := other_asset\<rparr>) config (w0, []) =
                UpdateCluster c E config (w0, [])"
    if "KubernetesVersion config \<noteq> DefaultKubernetesVersion c"
    using that
    by (simp add: UpdateCluster_def updateLocalkube_def localkubeURIWasSpecified_def
        call_def ssh transferFiles_without_asset_updater
        cong: prod.case_cong sum.case_cong option.case_cong)
  have asset: "UpdateCluster c E config (w0, []) =
              (case updateLocalkubeFromAsset E client w1 of
                 (Some err, w2) \<Rightarrow>
                   (Some (Wrap err ''Error updating localkube from asset''),
                    (w2, [EvNewSSHClient, EvUpdateLocalkubeFromAsset]))
               | (None, w2) \<Rightarrow>
                   (case AddMinikubeAddonsDirToAssets E [] w2 of
                      (fileAssets, w3) \<Rightarrow>
                        (case mergeAddons (Addons E) []
                                (w3, [EvNewSSHClient, EvUpdateLocalkubeFromAsset,
                                      EvAddMinikubeAddonsDirToAssets]) of
                           (Inl err, s4) \<Rightarrow> (Some err, s4)
                         | (Inr copyableFiles, s4) \<Rightarrow>
                             transferFiles E client (copyableFiles @ fileAssets) s4)))"
    if version: "KubernetesVersion config = DefaultKubernetesVersion c"
  proof -
    obtain r w2 where u: "updateLocalkubeFromAsset E client w1 = (r, w2)"
      by (cases "updateLocalkubeFromAsset E client w1") simp
    show ?thesis
    proof (cases r)
      case (Some err)
      with u version show ?thesis
        by (simp add: UpdateCluster_def updateLocalkube_def localkubeURIWasSpecified_def
            call_def ssh)
    next
      case None
      obtain fileAssets w3 where "AddMinikubeAddonsDirToAssets E [] w2 = (fileAssets, w3)"
        by (cases "AddMinikubeAddonsDirToAssets E [] w2") simp
      with u None version show ?thesis
        by (simp add: UpdateCluster_def updateLocalkube_def localkubeURIWasSpecified_def
            call_def ssh)
    qed
  qed
  have no_uri: "UpdateCluster c (E\<lparr>updateLocalkubeFromURI := other_uri\<rparr>) config (w0, []) =
                UpdateCluster c E config (w0, [])"
    if "KubernetesVersion config = DefaultKubernetesVersion c"
    using that
    by (simp add: UpdateCluster_def updateLocalkube_def localkubeURIWasSpecified_def
        call_def ssh transferFiles_without_uri_updater
        cong: prod.case_cong sum.case_cong option.case_cong)
  from UpdateCluster_trace [OF ssh, of c config] obtain added n sent where
    tr: "snd (snd (UpdateCluster c E config (w0, []))) =
             [EvNewSSHClient,
              if localkubeURIWasSpecified c config
              then EvUpdateLocalkubeFromURI else EvUpdateLocalkubeFromAsset]
             @ added @ replicate n EvIsEnabled @ map EvTransferFile sent"
    and added: "set added \<subseteq> {EvAddMinikubeAddonsDirToAssets}"
    by blast
  have a: "EvUpdateLocalkubeFromURI \<notin> set added" "EvUpdateLocalkubeFromAsset \<notin> set added"
    using added by auto
  have labels:
    "(EvUpdateLocalkubeFromURI \<in> set (snd (snd (UpdateCluster c E config (w0, [])))) \<longleftrightarrow>
           KubernetesVersion config \<noteq> DefaultKubernetesVersion c)
     \<and> (EvUpdateLocalkubeFromAsset \<in> set (snd (snd (UpdateCluster c E config (w0, [])))) \<longleftrightarrow>
             KubernetesVersion config = DefaultKubernetesVersion c)"
    unfolding tr using a by (auto simp: localkubeURIWasSpecified_def)
  from uri no_asset asset no_uri labels show ?thesis by blast
qed

text \<open>
  The default version is \<open>v1.5.1\<close>. With \<open>v1.5.1\<close> the example VM has received localkube
  from the bundled asset and the addon file; with \<open>v1.4.0\<close> it has received localkube
  from its URI and the addon file.
\<close>

theorem UpdateCluster_localkube_from_uri_iff_not_default_witness:
  "UpdateCluster example_constants example_provision \<lparr>KubernetesVersion = ''v1.5.1''\<rparr> ([], []) =
     (None,
      ([''localkube from the bundled asset'',
        ''/etc/kubernetes/addons/dashboard-rc.yaml 0640''],
       [EvNewSSHClient, EvUpdateLocalkubeFromAsset, EvAddMinikubeAddonsDirToAssets, EvIsEnabled,
        EvTransferFile \<lparr>Source = ''dashboard-rc.yaml'',
                        Destination = ''/etc/kubernetes/addons/'',
                        PermissionBits = ''0640''\<rparr>]))
   \<and> UpdateCluster example_constants example_provision \<lparr>KubernetesVersion = ''v1.4.0''\<rparr> ([], []) =
     (None,
      ([''localkube v1.4.0 from its URI'',
        ''/etc/kubernetes/addons/dashboard-rc.yaml 0640''],
       [EvNewSSHClient, EvUpdateLocalkubeFromURI, EvAddMinikubeAddonsDirToAssets, EvIsEnabled,
        EvTransferFile \<lparr>Source = ''dashboard-rc.yaml'',
                        Destination = ''/etc/kubernetes/addons/'',
                        PermissionBits = ''0640''\<rparr>]))"
proof -
  have ssh: "NewSSHClient example_provision [] = (Inr ''ssh'', [])"
    by (simp add: example_provision_def)
  have default: "DefaultKubernetesVersion example_constants = ''v1.5.1''"
    by (simp add: example_constants_def)
  note same = UpdateCluster_localkube_from_uri_iff_not_default
    [OF ssh, where c = example_constants and config = "\<lparr>KubernetesVersion = ''v1.5.1''\<rparr>"
       and other_uri = "\<lambda>config client w. (Some (External ''no network''), w)"
       and other_asset = "\<lambda>client w. (Some (External ''no asset''), w)",
     THEN conjunct2, THEN conjunct1, rule_format, THEN conjunct1]
  note other = UpdateCluster_localkube_from_uri_iff_not_default
    [OF ssh, where c = example_constants and config = "\<lparr>KubernetesVersion = ''v1.4.0''\<rparr>"
       and other_uri = "\<lambda>config client w. (Some (External ''no network''), w)"
       and other_asset = "\<lambda>client w. (Some (External ''no asset''), w)",
     THEN conjunct1, rule_format, THEN conjunct1]
  have a: "UpdateCluster example_constants example_provision \<lparr>KubernetesVersion = ''v1.5.1''\<rparr> ([], []) =
     (None,
      ([''localkube from the bundled asset'',
        ''/etc/kubernetes/addons/dashboard-rc.yaml 0640''],
       [EvNewSSHClient, EvUpdateLocalkubeFromAsset, EvAddMinikubeAddonsDirToAssets, EvIsEnabled,
        EvTransferFile \<lparr>Source = ''dashboard-rc.yaml'',
                        Destination = ''/etc/kubernetes/addons/'',
                        PermissionBits = ''0640''\<rparr>]))"
    by (subst same) (simp_all add: default example_provision_def call_def)
  have b: "UpdateCluster example_constants example_provision \<lparr>KubernetesVersion = ''v1.4.0''\<rparr> ([], []) =
     (None,
      ([''localkube v1.4.0 from its URI'',
        ''/etc/kubernetes/addons/dashboard-rc.yaml 0640''],
       [EvNewSSHClient, EvUpdateLocalkubeFromURI, EvAddMinikubeAddonsDirToAssets, EvIsEnabled,
        EvTransferFile \<lparr>Source = ''dashboard-rc.yaml'',
                        Destination = ''/etc/kubernetes/addons/'',
                        PermissionBits = ''0640''\<rparr>]))"
    by (subst other) (simp_all add: default example_provision_def call_def)
  from a b show ?thesis by (intro conjI)
qed

subsection \<open>Status of a host without state\<close>

text \<open>
  C9. When the host exists and loads, and the state its driver returns has the empty
  string representation, \<open>GetHostStatus\<close> returns \<open>Does Not Exist\<close> and no error, whether
  or not the driver returned an error together with that state.
\<close>

theorem GetHostStatus_empty_state_is_dne:
  assumes ex: "Exists api (MachineName c) w0 = (Inr True, w1)"
    and ld: "Load api (MachineName c) w1 = (Inr host, w2)"
    and st: "Driver_GetState api host w2 = ((s, err), w3)"
    and empty: "StateString api s = ''''"
  shows "GetHostStatus c api (w0, []) =
           (Inr ''Does Not Exist'',
            (w3, [EvExists (MachineName c), EvLoad (MachineName c), EvGetState host]))"
  by (simp add: GetHostStatus_def call_def ex ld st empty)

text \<open>
  The driver returns the empty state and the error \<open>exit status 1\<close>.
\<close>

theorem GetHostStatus_empty_state_is_dne_witness:
  "GetHostStatus example_constants example_api_no_state (0, []) =
     (Inr ''Does Not Exist'',
      (0, [EvExists ''minikube'', EvLoad ''minikube'', EvGetState example_host]))"
proof -
  have ex: "Exists example_api_no_state (MachineName example_constants) 0 = (Inr True, 0)"
    by (simp add: example_api_no_state_def example_api_def)
  have ld: "Load example_api_no_state (MachineName example_constants) 0 = (Inr example_host, 0)"
    by (simp add: example_api_no_state_def example_api_def)
  have st: "Driver_GetState example_api_no_state example_host 0 =
              (([], Some (External ''exit status 1'')), 0)"
    by (simp add: example_api_no_state_def)
  have empty: "StateString example_api_no_state [] = ''''"
    by (simp add: example_api_no_state_def example_api_def)
  from GetHostStatus_empty_state_is_dne [OF ex ld st empty]
  show ?thesis by (simp add: example_constants_def)
qed

subsection \<open>URLs of a service\<close>

text \<open>
  C10. Whenever \<open>getServiceURLsWithClient\<close>, given a template, returns URLs, the service
  was found, the list is not empty, and it pairs off with the node ports of the service
  that are strictly greater than zero, in the order of the service spec: each URL is the
  template executed on the IP and that port, parsed and printed.
\<close>

theorem getServiceURLsWithClient_one_url_per_node_port:
  assumes "getServiceURLsWithClient U client ip namespace service (Some t) = Inr urls"
  shows "\<exists>svc. Get (Services client namespace) service = Inr svc
           \<and> urls \<noteq> []
           \<and> list_all2 (\<lambda>port url. renderPort U t ip port = Inr url)
                (filter (\<lambda>p. p > 0) (map NodePort (Ports (Spec svc)))) urls"
proof -
  from assms obtain ports where
    p: "getServicePortsFromServiceGetter (Services client namespace) service = Inr ports" and
    r: "renderPorts U t ip ports [] = Inr urls"
    by (auto simp: getServiceURLsWithClient_def getServicePorts_def split: sum.splits)
  from p obtain svc where g: "Get (Services client namespace) service = Inr svc"
    by (cases "Get (Services client namespace) service")
       (auto simp: getServicePorts_of_failure)
  from p getServicePorts_of_service [OF g]
  have ne: "ports \<noteq> []" and
    ports: "ports = filter (\<lambda>p. p > 0) (map NodePort (Ports (Spec svc)))"
    by (auto split: if_splits)
  from renderPorts_Inr [OF r]
  have all: "list_all2 (\<lambda>port url. renderPort U t ip port = Inr url) ports urls"
    by simp
  from all ne have "urls \<noteq> []" by (auto simp: list_all2_conv_all_nth)
  with g all ports show ?thesis by blast
qed

text \<open>
  The service \<open>web\<close> resolves to the URL of its port 31000.
\<close>

theorem getServiceURLsWithClient_one_url_per_node_port_witness:
  "list_all2 (\<lambda>port url. renderPort example_url example_template ''10.0.0.5'' port = Inr url)
     (filter (\<lambda>p. p > 0) (map NodePort (Ports (Spec web_service)))) [''http://10.0.0.5:31000'']
   \<and> filter (\<lambda>p. p > 0) (map NodePort (Ports (Spec web_service))) = [31000]"
proof -
  from getServiceURLsWithClient_one_url_per_node_port [OF example_resolve_web]
  obtain svc where
    get: "Get (Services example_client ''default'') ''web'' = Inr svc" and
    all: "list_all2 (\<lambda>port url. renderPort example_url example_template ''10.0.0.5'' port = Inr url)
            (filter (\<lambda>p. p > 0) (map NodePort (Ports (Spec svc)))) [''http://10.0.0.5:31000'']"
    by blast
  from get have "svc = web_service"
    by (simp add: example_client_def example_getter_def)
  with all show ?thesis by (simp add: web_service_def)
qed

end
